theory Spec2Isabelle
  imports Main "HOL-Library.Word" "HOL-Library.Signed_Division"
begin

unbundle bit_operations_syntax

section \<open>Common C conventions\<close>

type_synonym u8 = "8 word"
type_synonym u16 = "16 word"
type_synonym u32 = "32 word"
type_synonym u64 = "64 word"

text \<open>Kernel error numbers (include/uapi/asm-generic/errno-base.h); a failing call
  returns the negated number.\<close>

abbreviation (input) ENOMEM :: int where "ENOMEM \<equiv> 12"
abbreviation (input) EBUSY :: int where "EBUSY \<equiv> 16"
abbreviation (input) ENODEV :: int where "ENODEV \<equiv> 19"
abbreviation (input) EINVAL :: int where "EINVAL \<equiv> 22"
abbreviation (input) ERESTARTSYS :: int where "ERESTARTSYS \<equiv> 512"
abbreviation (input) ERANGE :: int where "ERANGE \<equiv> 34"

text \<open>C division of two 32-bit \<open>int\<close>s truncates towards zero; the operands are read as
  two's complement and the quotient is stored back in 32 bits.\<close>

definition sdiv32 :: "u32 \<Rightarrow> u32 \<Rightarrow> u32" where
  "sdiv32 a b = word_of_int (sint a sdiv sint b)"

section \<open>Zotac fan controller (zotac-zone-platform.c)\<close>

abbreviation (input) EC_FAN_CTRL_ADDR :: u16 where "EC_FAN_CTRL_ADDR \<equiv> 0x44A"
abbreviation (input) EC_FAN_DUTY_ADDR :: u16 where "EC_FAN_DUTY_ADDR \<equiv> 0x44B"
abbreviation (input) EC_CPU_TEMP_ADDR :: u16 where "EC_CPU_TEMP_ADDR \<equiv> 0x462"

abbreviation (input) EC_FAN_MODE_AUTO :: u8 where "EC_FAN_MODE_AUTO \<equiv> 0"
abbreviation (input) EC_FAN_MODE_MANUAL :: u8 where "EC_FAN_MODE_MANUAL \<equiv> 1"
abbreviation (input) EC_FAN_MODE_CURVE :: u8 where "EC_FAN_MODE_CURVE \<equiv> 2"

abbreviation (input) EC_FAN_VALUE_MIN :: u32 where "EC_FAN_VALUE_MIN \<equiv> 0"
abbreviation (input) EC_FAN_VALUE_MAX :: u32 where "EC_FAN_VALUE_MAX \<equiv> 255"

abbreviation (input) FAN_CURVE_POINTS :: nat where "FAN_CURVE_POINTS \<equiv> 9"

text \<open>\<open>struct zotac_fan_data\<close>. The two curve arrays have \<open>FAN_CURVE_POINTS\<close> entries of
  \<open>unsigned int\<close>; \<open>last_updated\<close> is an \<open>unsigned long\<close> of jiffies; the mutex and the
  hwmon device pointer carry no data.\<close>

record zotac_fan_data =
  fan_rpm :: u32
  fan_duty :: u32
  fan_mode :: u32
  temp :: u32
  last_updated :: u64
  valid :: bool
  curve_enabled :: bool
  curve_temp :: "u32 list"
  curve_pwm :: "u32 list"

text \<open>The driver's world: the device data, the EC register file behind the indexed
  port protocol, the sequence of EC register writes issued so far, and whether
  \<open>fan_curve_timer\<close> is armed.\<close>

record zotac_state =
  data :: zotac_fan_data
  ec :: "u16 \<Rightarrow> u8"
  ec_writes :: "(u16 \<times> u8) list"
  timer_pending :: bool

text \<open>\<open>ec_read_byte\<close> and \<open>ec_write_byte\<close> select the upper and the lower address byte and
  then transfer one byte; the selected register is \<open>addr_upper * 256 + addr_lower\<close>.
  \<open>ec_write_byte\<close> always returns 0.\<close>

definition ec_addr :: "u16 \<Rightarrow> u16" where
  "ec_addr addr =
     (let addr_upper = drop_bit 8 addr AND 0xFF; addr_lower = addr AND 0xFF
      in push_bit 8 addr_upper OR addr_lower)"

definition ec_read_byte :: "u16 \<Rightarrow> zotac_state \<Rightarrow> u8" where
  "ec_read_byte addr s = ec s (ec_addr addr)"

definition ec_write_byte :: "u16 \<Rightarrow> u8 \<Rightarrow> zotac_state \<Rightarrow> int \<times> zotac_state" where
  "ec_write_byte addr v s =
     (0, s\<lparr>ec := (ec s)(ec_addr addr := v),
           ec_writes := ec_writes s @ [(ec_addr addr, v)]\<rparr>)"

text \<open>\<open>set_fan_duty_internal\<close>: percent to the EC's 0..255 scale, in \<open>unsigned int\<close>,
  truncated to the \<open>u8\<close> that is written.\<close>

definition set_fan_duty_internal :: "u32 \<Rightarrow> zotac_state \<Rightarrow> int \<times> zotac_state" where
  "set_fan_duty_internal duty_percent s =
     (if duty_percent > 100 then (- EINVAL, s)
      else
        let duty_val :: u8 =
              ucast ((duty_percent * (EC_FAN_VALUE_MAX - EC_FAN_VALUE_MIN)) div 100
                     + EC_FAN_VALUE_MIN)
        in ec_write_byte EC_FAN_DUTY_ADDR duty_val s)"

text \<open>The interpolation loop of \<open>fan_curve_function\<close>: \<open>i\<close> runs from 0 to
  \<open>FAN_CURVE_POINTS - 2\<close>, the first interval that holds the temperature sets the duty
  and leaves the loop. \<open>temp_range\<close>, \<open>pwm_range\<close> and \<open>temp_offset\<close> are C \<open>int\<close>s
  holding the bits of the unsigned differences.\<close>

function fan_curve_loop :: "u32 \<Rightarrow> u32 list \<Rightarrow> u32 list \<Rightarrow> nat \<Rightarrow> u32 \<Rightarrow> u32" where
  "fan_curve_loop current_temp ct cp i pwm =
     (if i < FAN_CURVE_POINTS - 1 then
        (if ct ! i \<le> current_temp \<and> current_temp < ct ! (i + 1) then
           (let temp_range = ct ! (i + 1) - ct ! i;
                pwm_range = cp ! (i + 1) - cp ! i;
                temp_offset = current_temp - ct ! i
            in if 0 <s temp_range
               then cp ! i + sdiv32 (pwm_range * temp_offset) temp_range
               else cp ! i)
         else fan_curve_loop current_temp ct cp (i + 1) pwm)
      else pwm)"
  by pat_completeness auto
termination
  by (relation "measure (\<lambda>(t, ct, cp, i, pwm). FAN_CURVE_POINTS - 1 - i)") auto

declare fan_curve_loop.simps [simp del]

text \<open>The duty that one tick of \<open>fan_curve_function\<close> computes from the temperature and
  the stored table.\<close>

definition fan_curve_pwm :: "u32 \<Rightarrow> u32 list \<Rightarrow> u32 list \<Rightarrow> u32" where
  "fan_curve_pwm current_temp ct cp =
     (if ct ! (FAN_CURVE_POINTS - 1) \<le> current_temp then cp ! (FAN_CURVE_POINTS - 1)
      else fan_curve_loop current_temp ct cp 0 (cp ! 0))"

text \<open>\<open>fan_curve_function\<close>, the timer callback. The device data exists once the probe
  has run, so the \<open>!data\<close> disjunct is false; with the curve disabled the callback
  returns without re-arming the timer.\<close>

definition fan_curve_function :: "zotac_state \<Rightarrow> zotac_state" where
  "fan_curve_function s =
     (if \<not> curve_enabled (data s) then s
      else
        let current_temp :: u32 = ucast (ec_read_byte EC_CPU_TEMP_ADDR s);
            s1 = s\<lparr>data := (data s)\<lparr>temp := current_temp\<rparr>\<rparr>;
            pwm = fan_curve_pwm current_temp (curve_temp (data s1)) (curve_pwm (data s1));
            s2 = snd (set_fan_duty_internal pwm s1)
        in s2\<lparr>timer_pending := True\<rparr>)"

text \<open>\<open>set_fan_mode\<close>: \<open>mod_timer\<close> arms the timer, \<open>del_timer\<close> disarms it.\<close>

definition set_fan_mode :: "u8 \<Rightarrow> zotac_state \<Rightarrow> int \<times> zotac_state" where
  "set_fan_mode mode s =
     (if mode = EC_FAN_MODE_CURVE then
        (let s1 = s\<lparr>data := (data s)\<lparr>curve_enabled := True\<rparr>\<rparr>;
             (err, s2) = ec_write_byte EC_FAN_CTRL_ADDR EC_FAN_MODE_MANUAL s1
         in if err = 0
            then (err, s2\<lparr>data := (data s2)\<lparr>fan_mode := ucast EC_FAN_MODE_MANUAL\<rparr>,
                          timer_pending := True\<rparr>)
            else (err, s2))
      else
        (let s1 = (if curve_enabled (data s)
                   then s\<lparr>data := (data s)\<lparr>curve_enabled := False\<rparr>,
                          timer_pending := False\<rparr>
                   else s);
             (err, s2) = ec_write_byte EC_FAN_CTRL_ADDR mode s1
         in if err = 0
            then (err, s2\<lparr>data := (data s2)\<lparr>fan_mode := ucast mode\<rparr>\<rparr>)
            else (err, s2)))"

text \<open>\<open>zotac_fan_update_device\<close>: \<open>hz\<close> is the kernel's \<open>HZ\<close> and \<open>current_time\<close> the value of
  \<open>jiffies\<close>. \<open>time_after (a, b)\<close> is \<open>(long) (b - a) < 0\<close>. The cache is refreshed from the
  EC when it is older than a second or not valid; the speed is the upper byte shifted
  left by 8, or-ed with the lower byte.\<close>

abbreviation (input) EC_FAN_SPEED_UPPER_ADDR :: u16 where "EC_FAN_SPEED_UPPER_ADDR \<equiv> 0x476"
abbreviation (input) EC_FAN_SPEED_LOWER_ADDR :: u16 where "EC_FAN_SPEED_LOWER_ADDR \<equiv> 0x477"

definition time_after :: "u64 \<Rightarrow> u64 \<Rightarrow> bool" where
  "time_after a b \<longleftrightarrow> (b - a) <s 0"

definition zotac_fan_update_device :: "u64 \<Rightarrow> u64 \<Rightarrow> zotac_state \<Rightarrow> zotac_state" where
  "zotac_fan_update_device hz current_time s =
     (if time_after current_time (last_updated (data s) + hz) \<or> \<not> valid (data s) then
        (let upper = ec_read_byte EC_FAN_SPEED_UPPER_ADDR s;
             lower = ec_read_byte EC_FAN_SPEED_LOWER_ADDR s
         in s\<lparr>data := (data s)
                \<lparr>fan_mode := ucast (ec_read_byte EC_FAN_CTRL_ADDR s),
                 fan_duty := ucast (ec_read_byte EC_FAN_DUTY_ADDR s),
                 fan_rpm := push_bit 8 (ucast upper) OR ucast lower,
                 temp := ucast (ec_read_byte EC_CPU_TEMP_ADDR s),
                 last_updated := current_time,
                 valid := True\<rparr>\<rparr>)
      else s)"

text \<open>\<open>zotac_fan_probe\<close>, for the EC registers \<open>regs\<close>: the zero-allocated data gets the
  default curve from 10 to 90 degrees and from 20 to 100 percent, the curve disabled
  and the cache invalid; the timer is set up but not armed; the probe ends with
  \<open>zotac_fan_update_device\<close>, which fills the cache from the EC and marks it valid.\<close>

definition zotac_fan_probe :: "u64 \<Rightarrow> u64 \<Rightarrow> (u16 \<Rightarrow> u8) \<Rightarrow> zotac_state" where
  "zotac_fan_probe hz current_time regs =
     zotac_fan_update_device hz current_time
       \<lparr>data =
          \<lparr>fan_rpm = 0, fan_duty = 0, fan_mode = 0, temp = 0, last_updated = 0,
           valid = False, curve_enabled = False,
           curve_temp = map (\<lambda>i. 10 + of_nat i * 10) [0..<FAN_CURVE_POINTS],
           curve_pwm = map (\<lambda>i. if (20 + of_nat i * 10 :: u32) > 100 then 100
                                  else 20 + of_nat i * 10) [0..<FAN_CURVE_POINTS]\<rparr>,
        ec = regs, ec_writes = [], timer_pending = False\<rparr>"

text \<open>A probed device for concrete runs: all EC registers read 0, \<open>HZ\<close> is 250 and the
  probe runs at jiffy 1000.\<close>

definition probe_state :: zotac_state where
  "probe_state = zotac_fan_probe 250 1000 (\<lambda>_. 0)"

definition probe_data :: zotac_fan_data where
  "probe_data = data probe_state"

text \<open>The stores that \<open>CURVE_TEMP_ATTR\<close> and \<open>CURVE_PWM_ATTR\<close> generate for the points 1
  to 9. \<open>parsed\<close> is what \<open>kstrtoul\<close> returns and the \<open>unsigned long\<close> it stores; the
  assignment to the \<open>unsigned int\<close> array entry keeps the low 32 bits. Only the duty is
  range-checked.\<close>

definition pwm1_auto_point_temp_store ::
  "nat \<Rightarrow> int \<times> u64 \<Rightarrow> u64 \<Rightarrow> zotac_fan_data \<Rightarrow> int \<times> zotac_fan_data" where
  "pwm1_auto_point_temp_store point parsed count d =
     (let (err, t) = parsed
      in if err \<noteq> 0 then (err, d)
         else (sint count, d\<lparr>curve_temp := (curve_temp d)[point - 1 := ucast t]\<rparr>))"

definition pwm1_auto_point_pwm_store ::
  "nat \<Rightarrow> int \<times> u64 \<Rightarrow> u64 \<Rightarrow> zotac_fan_data \<Rightarrow> int \<times> zotac_fan_data" where
  "pwm1_auto_point_pwm_store point parsed count d =
     (let (err, pwm) = parsed
      in if err \<noteq> 0 then (err, d)
         else if pwm > 100 then (- EINVAL, d)
         else (sint count, d\<lparr>curve_pwm := (curve_pwm d)[point - 1 := ucast pwm]\<rparr>))"

text \<open>What the probe establishes and the stores keep: nine entries in each array and
  no duty above 100.\<close>

definition curve_table_ok :: "zotac_fan_data \<Rightarrow> bool" where
  "curve_table_ok d \<longleftrightarrow>
     length (curve_temp d) = FAN_CURVE_POINTS \<and> length (curve_pwm d) = FAN_CURVE_POINTS
     \<and> list_all (\<lambda>p. p \<le> 100) (curve_pwm d)"

subsection \<open>The curve evaluator as the specification words it\<close>

text \<open>Over mathematical integers: the interval \<open>[T i, T (i + 1))\<close> holds \<open>t\<close>; the linear
  interpolation in interval \<open>i\<close> with C's truncating division, and the breakpoint's own
  duty when the interval has zero width; the evaluator takes the last duty at or above
  the last breakpoint, else the first interval in stored order that holds \<open>t\<close>, else the
  first duty.\<close>

definition interval_matches :: "int \<Rightarrow> int list \<Rightarrow> nat \<Rightarrow> bool" where
  "interval_matches t T i \<longleftrightarrow> T ! i \<le> t \<and> t < T ! (i + 1)"

definition interpolate :: "int \<Rightarrow> int list \<Rightarrow> int list \<Rightarrow> nat \<Rightarrow> int" where
  "interpolate t T P i =
     (if T ! (i + 1) - T ! i = 0 then P ! i
      else P ! i + ((P ! (i + 1) - P ! i) * (t - T ! i)) sdiv (T ! (i + 1) - T ! i))"

definition spec_curve_duty :: "int \<Rightarrow> int list \<Rightarrow> int list \<Rightarrow> int" where
  "spec_curve_duty t T P =
     (if T ! 8 \<le> t then P ! 8
      else case find (interval_matches t T) [0..<8] of
             None \<Rightarrow> P ! 0
           | Some i \<Rightarrow> interpolate t T P i)"

section \<open>Legion Go S MCU configuration (lenovo-legos-hid-config.c)\<close>

subsection \<open>Protocol constants\<close>

text \<open>Modelled from the spec: \<open>GO_S_PACKET_SIZE\<close> is declared in lenovo-legos-hid-core.h,
  which is not among the sources; the specification fixes the frame at 65 bytes, the
  size of \<open>struct command_report\<close> (command, sub-index, 63 payload bytes).\<close>

abbreviation (input) GO_S_PACKET_SIZE :: nat where "GO_S_PACKET_SIZE \<equiv> 65"

text \<open>\<open>enum MCU_COMMAND\<close>, as the byte on the wire.\<close>

abbreviation (input) GET_VERSION :: u8 where "GET_VERSION \<equiv> 0x01"
abbreviation (input) GET_MCU_ID :: u8 where "GET_MCU_ID \<equiv> 0x02"
abbreviation (input) GET_GAMEPAD_CFG :: u8 where "GET_GAMEPAD_CFG \<equiv> 0x03"
abbreviation (input) SET_GAMEPAD_CFG :: u8 where "SET_GAMEPAD_CFG \<equiv> 0x04"
abbreviation (input) GET_TP_PARAM :: u8 where "GET_TP_PARAM \<equiv> 0x05"
abbreviation (input) SET_TP_PARAM :: u8 where "SET_TP_PARAM \<equiv> 0x06"
abbreviation (input) GET_MOTOR_CFG :: u8 where "GET_MOTOR_CFG \<equiv> 0x07"
abbreviation (input) SET_MOTOR_CFG :: u8 where "SET_MOTOR_CFG \<equiv> 0x08"
abbreviation (input) GET_TRIGGER_CFG :: u8 where "GET_TRIGGER_CFG \<equiv> 0x09"
abbreviation (input) SET_TRIGGER_CFG :: u8 where "SET_TRIGGER_CFG \<equiv> 0x0A"
abbreviation (input) GET_STICK_CFG :: u8 where "GET_STICK_CFG \<equiv> 0x0B"
abbreviation (input) SET_STICK_CFG :: u8 where "SET_STICK_CFG \<equiv> 0x0C"
abbreviation (input) GET_GYRO_CFG :: u8 where "GET_GYRO_CFG \<equiv> 0x0D"
abbreviation (input) SET_GYRO_CFG :: u8 where "SET_GYRO_CFG \<equiv> 0x0E"
abbreviation (input) GET_LIGHT_CFG :: u8 where "GET_LIGHT_CFG \<equiv> 0x0F"
abbreviation (input) SET_LIGHT_CFG :: u8 where "SET_LIGHT_CFG \<equiv> 0x10"
abbreviation (input) GET_KEY_MAP :: u8 where "GET_KEY_MAP \<equiv> 0x11"
abbreviation (input) SET_KEY_MAP :: u8 where "SET_KEY_MAP \<equiv> 0x12"
abbreviation (input) GET_PL_TEST :: u8 where "GET_PL_TEST \<equiv> 0xDF"

text \<open>\<open>enum GAMEPAD_CFG_INDEX\<close>, \<open>enum TOUCHPAD_CFG_INDEX\<close>, \<open>enum LIGHT_CFG_INDEX\<close> and
  \<open>enum TEST_INDEX\<close>.\<close>

abbreviation (input) NONE :: u8 where "NONE \<equiv> 0x00"
abbreviation (input) CFG_GAMEPAD_MODE :: u8 where "CFG_GAMEPAD_MODE \<equiv> 0x01"
abbreviation (input) CFG_AUTO_SLP_TIME :: u8 where "CFG_AUTO_SLP_TIME \<equiv> 0x04"
abbreviation (input) CFG_PASS_ENABLE :: u8 where "CFG_PASS_ENABLE \<equiv> 0x05"
abbreviation (input) CFG_LIGHT_ENABLE :: u8 where "CFG_LIGHT_ENABLE \<equiv> 0x06"
abbreviation (input) CFG_IMU_ENABLE :: u8 where "CFG_IMU_ENABLE \<equiv> 0x07"
abbreviation (input) CFG_TPAD_ENABLE :: u8 where "CFG_TPAD_ENABLE \<equiv> 0x08"
abbreviation (input) CFG_OS_TYPE :: u8 where "CFG_OS_TYPE \<equiv> 0x0A"
abbreviation (input) CFG_POLL_RATE :: u8 where "CFG_POLL_RATE \<equiv> 0x10"
abbreviation (input) CFG_DPAD_MODE :: u8 where "CFG_DPAD_MODE \<equiv> 0x11"
abbreviation (input) CFG_MS_WHEEL_STEP :: u8 where "CFG_MS_WHEEL_STEP \<equiv> 0x12"

abbreviation (input) CFG_WINDOWS_MODE :: u8 where "CFG_WINDOWS_MODE \<equiv> 0x03"
abbreviation (input) CFG_LINUX_MODE :: u8 where "CFG_LINUX_MODE \<equiv> 0x04"

abbreviation (input) LIGHT_MODE_SEL :: nat where "LIGHT_MODE_SEL \<equiv> 1"
abbreviation (input) LIGHT_PROFILE_SEL :: nat where "LIGHT_PROFILE_SEL \<equiv> 2"
abbreviation (input) USR_LIGHT_PROFILE_1 :: nat where "USR_LIGHT_PROFILE_1 \<equiv> 3"
abbreviation (input) USR_LIGHT_PROFILE_2 :: nat where "USR_LIGHT_PROFILE_2 \<equiv> 4"
abbreviation (input) USR_LIGHT_PROFILE_3 :: nat where "USR_LIGHT_PROFILE_3 \<equiv> 5"

abbreviation (input) TEST_TP_MFR :: u8 where "TEST_TP_MFR \<equiv> 0x02"
abbreviation (input) TEST_IMU_MFR :: u8 where "TEST_IMU_MFR \<equiv> 0x03"
abbreviation (input) TEST_TP_VER :: u8 where "TEST_TP_VER \<equiv> 0x04"

text \<open>The value enumerations (the last enumerator of each is the bound the show
  functions test) and their label tables.\<close>

abbreviation (input) DINPUT :: u8 where "DINPUT \<equiv> 1"
abbreviation (input) FEATURE_ENABLED :: u8 where "FEATURE_ENABLED \<equiv> 1"
abbreviation (input) IMU_OFF_2S :: u8 where "IMU_OFF_2S \<equiv> 2"
abbreviation (input) LINUX :: u8 where "LINUX \<equiv> 1"
abbreviation (input) HZ1000 :: u8 where "HZ1000 \<equiv> 3"
abbreviation (input) DIR4 :: u8 where "DIR4 \<equiv> 1"
abbreviation (input) TP_SIPO :: u8 where "TP_SIPO \<equiv> 2"
abbreviation (input) IMU_ST :: u8 where "IMU_ST \<equiv> 2"
abbreviation (input) RGB_MODE_CUSTOM :: u8 where "RGB_MODE_CUSTOM \<equiv> 1"

definition GAMEPAD_MODE_TEXT :: "string list" where
  "GAMEPAD_MODE_TEXT = [''xinput'', ''dinput'']"

definition FEATURE_ENABLE_STATUS_TEXT :: "string list" where
  "FEATURE_ENABLE_STATUS_TEXT = [''false'', ''true'']"

definition IMU_ENABLED_TEXT :: "string list" where
  "IMU_ENABLED_TEXT = [''off'', ''on'', ''off-2sec'']"

definition OS_TYPE_TEXT :: "string list" where
  "OS_TYPE_TEXT = [''windows'', ''linux'']"

definition POLL_RATE_TEXT :: "string list" where
  "POLL_RATE_TEXT = [''125'', ''250'', ''500'', ''1000'']"

definition DPAD_MODE_TEXT :: "string list" where
  "DPAD_MODE_TEXT = [''8-way'', ''4-way'']"

definition TOUCHPAD_MODE_TEXT :: "string list" where
  "TOUCHPAD_MODE_TEXT = [''relative'', ''absolute'']"

definition TP_MANUFACTURER_TEXT :: "string list" where
  "TP_MANUFACTURER_TEXT = [''none'', ''BetterLife'', ''SIPO'']"

definition IMU_MANUFACTURER_TEXT :: "string list" where
  "IMU_MANUFACTURER_TEXT = [''none'', ''Bosch'', ''ST'']"



subsection \<open>Driver state and its surroundings\<close>

text \<open>\<open>struct legos_cfg drvdata\<close>. \<open>send_cmd_complete\<close> is the completion's \<open>done\<close> count;
  \<open>led_intensity\<close> and \<open>led_brightness\<close> are the fields of the multicolor LED class
  device that \<open>led_cdev\<close> points to (\<open>unsigned int\<close> each).\<close>

record legos_cfg =
  send_cmd_complete :: nat
  last_cmd_ret :: int
  last_cmd_val :: u8
  mcu_id :: "u8 list"
  mcu_ver :: "u8 list"
  rgb_profile :: u8
  rgb_effect :: u8
  rgb_speed :: u8
  rgb_mode :: u8
  led_intensity :: "u32 list"
  led_brightness :: u32

text \<open>What the driver calls and does not define: the endpoint of the HID device and the
  constant \<open>LEGION_GO_S_CFG_INTF_IN\<close> it is compared with, whether \<open>kmemdup\<close> succeeds,
  \<open>hid_hw_output_report\<close> (its return value and the device's next state), the input
  reports the HID core hands to \<open>legos_cfg_raw_event\<close> while the issuer waits, whether
  a signal interrupts the wait, and the kernel's number parsers (return code and the
  value stored through the pointer).\<close>

record 'd env =
  endpoint_address :: int
  cfg_intf_in :: int
  kmemdup_ok :: bool
  hw_output_report :: "'d \<Rightarrow> u8 list \<Rightarrow> int \<times> 'd"
  inbound :: "'d \<Rightarrow> u8 list list \<times> 'd"
  signal_pending :: bool
  kstrtou8 :: "string \<Rightarrow> int \<times> u8"
  kstrtoint :: "string \<Rightarrow> int \<times> u32"

text \<open>The world one operation runs in: the driver data, the device behind the
  transport, the buffers handed to \<open>hid_hw_output_report\<close> so far, and the calls of
  \<open>mcu_property_out\<close> so far (command, index, payload size).\<close>

record 'd world =
  drvdata :: legos_cfg
  device :: 'd
  sent :: "u8 list list"
  issued :: "(u8 \<times> u8 \<times> nat) list"

subsection \<open>Response handler\<close>

text \<open>\<open>legos_cfg_raw_event\<close>: \<open>report\<close> is the buffer, its length the \<open>size\<close> argument.
  \<open>cmd_rep->data[k]\<close> is byte \<open>k + 2\<close> of the report. \<open>complete\<close> adds one to the
  completion's count.\<close>

definition legos_cfg_raw_event :: "u8 list \<Rightarrow> legos_cfg \<Rightarrow> int \<times> legos_cfg" where
  "legos_cfg_raw_event report drv =
     (if length report \<noteq> GO_S_PACKET_SIZE then (- EINVAL, drv)
      else
        let cmd = report ! 0; sub_cmd = report ! 1; dat = (\<lambda>k. report ! (k + 2));
            drv1 =
              (if cmd = GET_VERSION then
                 drv\<lparr>mcu_ver := [dat 2, dat 1, dat 0, sub_cmd], last_cmd_ret := 0\<rparr>
               else if cmd = GET_MCU_ID then
                 drv\<lparr>mcu_id := sub_cmd # take 11 (drop 2 report), last_cmd_ret := 0\<rparr>
               else if cmd = GET_GAMEPAD_CFG \<or> cmd = GET_TP_PARAM then
                 drv\<lparr>last_cmd_val := dat 0, last_cmd_ret := 0\<rparr>
               else if cmd = GET_PL_TEST then
                 (if sub_cmd = TEST_TP_MFR \<or> sub_cmd = TEST_IMU_MFR \<or> sub_cmd = TEST_TP_VER
                  then drv\<lparr>last_cmd_val := dat 0, last_cmd_ret := 0\<rparr>
                  else drv\<lparr>last_cmd_ret := EINVAL\<rparr>)
               else if cmd = GET_LIGHT_CFG then
                 (if unat sub_cmd = LIGHT_MODE_SEL then
                    drv\<lparr>rgb_mode := dat 0, last_cmd_ret := 0\<rparr>
                  else if unat sub_cmd = LIGHT_PROFILE_SEL then
                    drv\<lparr>rgb_profile := dat 0, last_cmd_ret := 0\<rparr>
                  else if unat sub_cmd = USR_LIGHT_PROFILE_1 \<or> unat sub_cmd = USR_LIGHT_PROFILE_2
                          \<or> unat sub_cmd = USR_LIGHT_PROFILE_3 then
                    drv\<lparr>rgb_effect := dat 0,
                        led_intensity := [ucast (dat 1), ucast (dat 2), ucast (dat 3)],
                        led_brightness := ucast (dat 4),
                        rgb_speed := dat 5,
                        last_cmd_ret := 0\<rparr>
                  else drv\<lparr>last_cmd_ret := EINVAL\<rparr>)
               else if cmd = GET_GYRO_CFG \<or> cmd = GET_KEY_MAP \<or> cmd = GET_MOTOR_CFG
                       \<or> cmd = GET_STICK_CFG \<or> cmd = GET_TRIGGER_CFG then
                 drv\<lparr>last_cmd_ret := EINVAL\<rparr>
               else if cmd = SET_GAMEPAD_CFG \<or> cmd = SET_GYRO_CFG \<or> cmd = SET_KEY_MAP
                       \<or> cmd = SET_LIGHT_CFG \<or> cmd = SET_MOTOR_CFG \<or> cmd = SET_STICK_CFG
                       \<or> cmd = SET_TP_PARAM \<or> cmd = SET_TRIGGER_CFG then
                 drv\<lparr>last_cmd_ret := uint (dat 0)\<rparr>
               else drv\<lparr>last_cmd_ret := EINVAL\<rparr>);
            drv2 = drv1\<lparr>send_cmd_complete := send_cmd_complete drv1 + 1\<rparr>
        in (- last_cmd_ret drv2, drv2))"

text \<open>The reports that arrive during one wait, handled in order.\<close>

fun deliver :: "u8 list list \<Rightarrow> legos_cfg \<Rightarrow> legos_cfg" where
  "deliver [] drv = drv"
| "deliver (report # rest) drv = deliver rest (snd (legos_cfg_raw_event report drv))"

subsection \<open>Issuing a command\<close>

definition legos_cfg_send_cmd :: "'d env \<Rightarrow> u8 list \<Rightarrow> 'd world \<Rightarrow> int \<times> 'd world" where
  "legos_cfg_send_cmd e buf w =
     (if \<not> kmemdup_ok e then (- ENOMEM, w)
      else
        let (ret, dev) = hw_output_report e (device w) buf;
            w1 = w\<lparr>device := dev, sent := sent w @ [buf]\<rparr>
        in if ret \<noteq> int GO_S_PACKET_SIZE then (- EINVAL, w1) else (0, w1))"

text \<open>\<open>wait_for_completion_interruptible_timeout\<close> over the 5 ms window: positive when
  the completion has been signalled (the caller only tests the sign), \<open>-ERESTARTSYS\<close>
  when a signal is pending and nothing has completed, 0 on timeout. With a signal
  pending the task does not sleep, so no report is handled in the window.\<close>

definition wait_for_completion :: "'d env \<Rightarrow> 'd world \<Rightarrow> int \<times> 'd world" where
  "wait_for_completion e w =
     (if signal_pending e \<and> send_cmd_complete (drvdata w) = 0 then (- ERESTARTSYS, w)
      else
        let (reports, dev) = inbound e (device w);
            drv = deliver reports (drvdata w);
            w1 = w\<lparr>drvdata := drv, device := dev\<rparr>
        in if send_cmd_complete drv > 0 then (1, w1) else (0, w1))"

text \<open>\<open>mcu_property_out\<close>: \<open>val\<close> and \<open>sz\<close> (\<open>size\<close> in the source) are the payload and its
  length; the frame is zero-filled behind the \<open>sz\<close> copied bytes. The callers pass
  sizes 0, 1 and 6.\<close>

definition outbuf_of :: "u8 \<Rightarrow> u8 \<Rightarrow> u8 list \<Rightarrow> nat \<Rightarrow> u8 list" where
  "outbuf_of command idx val sz =
     [command, idx] @ take sz val @ replicate (GO_S_PACKET_SIZE - 2 - sz) 0"

definition mcu_property_out ::
  "'d env \<Rightarrow> u8 \<Rightarrow> u8 \<Rightarrow> u8 list \<Rightarrow> nat \<Rightarrow> 'd world \<Rightarrow> int \<times> 'd world" where
  "mcu_property_out e command idx val sz w =
     (if endpoint_address e \<noteq> cfg_intf_in e then (- ENODEV, w)
      else
        let outbuf = outbuf_of command idx val sz;
            w1 = w\<lparr>drvdata := (drvdata w)\<lparr>last_cmd_ret := 0, last_cmd_val := 0\<rparr>,
                   issued := issued w @ [(command, idx, sz)]\<rparr>;
            (ret, w2) = legos_cfg_send_cmd e outbuf w1
        in if ret \<noteq> 0 then (ret, w2)
           else
             let (ret, w3) = wait_for_completion e w2;
                 ret = (if ret = 0 then - EBUSY else ret);
                 ret = (if ret > 0 then 0 else ret);
                 w4 = w3\<lparr>drvdata := (drvdata w3)\<lparr>send_cmd_complete := 0\<rparr>\<rparr>
             in (ret, w4))"

subsection \<open>Text helpers of the attribute shell\<close>

text \<open>Modelled from the spec: \<open>sysfs_match_string\<close> (the kernel's string library, not
  among the sources) finds the label that matches the written text exactly and
  yields its ordinal position, or \<open>-EINVAL\<close> when none does; as sysfs writes end in a
  newline, one trailing newline is not part of the text compared.\<close>

definition sysfs_streq :: "string \<Rightarrow> string \<Rightarrow> bool" where
  "sysfs_streq s1 s2 \<longleftrightarrow> s1 = s2 \<or> s1 @ [CHR 0x0A] = s2 \<or> s1 = s2 @ [CHR 0x0A]"

fun match_string_from :: "string list \<Rightarrow> string \<Rightarrow> int \<Rightarrow> int" where
  "match_string_from [] s k = - EINVAL"
| "match_string_from (item # rest) s k =
     (if sysfs_streq item s then k else match_string_from rest s (k + 1))"

definition sysfs_match_string :: "string list \<Rightarrow> string \<Rightarrow> int" where
  "sysfs_match_string table s = match_string_from table s 0"

text \<open>Modelled from the spec: \<open>sysfs_emit\<close> (not among the sources) renders the value as
  text into the page buffer and returns the number of bytes written; \<open>%u\<close> prints a byte
  in decimal.\<close>

definition sysfs_emit :: "string \<Rightarrow> int \<times> string" where
  "sysfs_emit s = (int (length s), s)"

fun dec :: "nat \<Rightarrow> string" where
  "dec n = (if n < 10 then [''0123456789'' ! n]
            else dec (n div 10) @ [''0123456789'' ! (n mod 10)])"

declare dec.simps [simp del]

definition emit_label :: "string list \<Rightarrow> u8 \<Rightarrow> int \<times> string" where
  "emit_label table i = sysfs_emit (table ! unat i @ [CHR 0x0A])"

definition emit_u8 :: "u8 \<Rightarrow> int \<times> string" where
  "emit_u8 i = sysfs_emit (dec (unat i) @ [CHR 0x0A])"

text \<open>The show functions keep their result in \<open>size_t count\<close> and return it as
  \<open>ssize_t\<close>: an \<open>int\<close> goes through 64 unsigned bits and is read back signed.\<close>

definition to_size_t :: "int \<Rightarrow> u64" where
  "to_size_t r = word_of_int r"

definition to_ssize_t :: "u64 \<Rightarrow> int" where
  "to_ssize_t c = sint c"

subsection \<open>Gamepad, touchpad and test properties\<close>

text \<open>The parsing switch of \<open>gamepad_property_store\<close>: the error that is returned at
  once, or the wire value \<open>val\<close>.\<close>

definition match_val :: "string list \<Rightarrow> string \<Rightarrow> int + u8" where
  "match_val table buf =
     (let ret = sysfs_match_string table buf
      in if ret < 0 then Inl ret else Inr (word_of_int ret))"

definition gamepad_parse :: "'d env \<Rightarrow> string \<Rightarrow> u8 \<Rightarrow> int + u8" where
  "gamepad_parse e buf idx =
     (if idx = CFG_GAMEPAD_MODE then match_val GAMEPAD_MODE_TEXT buf
      else if idx = CFG_AUTO_SLP_TIME then
        (let (ret, val) = kstrtou8 e buf
         in if ret \<noteq> 0 then Inl ret
            else if val < 0 \<or> val > 255 then Inl (- EINVAL) else Inr val)
      else if idx = CFG_IMU_ENABLE then match_val IMU_ENABLED_TEXT buf
      else if idx = CFG_PASS_ENABLE \<or> idx = CFG_LIGHT_ENABLE \<or> idx = CFG_TPAD_ENABLE then
        match_val FEATURE_ENABLE_STATUS_TEXT buf
      else if idx = CFG_OS_TYPE then match_val OS_TYPE_TEXT buf
      else if idx = CFG_POLL_RATE then match_val POLL_RATE_TEXT buf
      else if idx = CFG_DPAD_MODE then match_val DPAD_MODE_TEXT buf
      else if idx = CFG_MS_WHEEL_STEP then
        (let (ret, val) = kstrtou8 e buf
         in if ret \<noteq> 0 then Inl ret
            else if val < 1 \<or> val > 127 then Inl (- EINVAL) else Inr val)
      else Inl (- EINVAL))"

text \<open>The tail shared by the two store functions: payload size 0 for the wire value 0,
  the SET command, then the transport error, the device's status, or \<open>count\<close>.\<close>

definition property_set ::
  "'d env \<Rightarrow> u8 \<Rightarrow> u8 \<Rightarrow> u8 \<Rightarrow> u64 \<Rightarrow> 'd world \<Rightarrow> int \<times> 'd world" where
  "property_set e command idx val count w =
     (let sz = (if val = 0 then 0 else 1);
          (ret, w1) = mcu_property_out e command idx [val] sz w
      in if ret < 0 then (ret, w1)
         else if last_cmd_ret (drvdata w1) \<noteq> 0 then (- last_cmd_ret (drvdata w1), w1)
         else (to_ssize_t count, w1))"

definition gamepad_property_store ::
  "'d env \<Rightarrow> string \<Rightarrow> u64 \<Rightarrow> u8 \<Rightarrow> 'd world \<Rightarrow> int \<times> 'd world" where
  "gamepad_property_store e buf count idx w =
     (case gamepad_parse e buf idx of
        Inl err \<Rightarrow> (err, w)
      | Inr val \<Rightarrow> property_set e SET_GAMEPAD_CFG idx val count w)"

definition touchpad_parse :: "string \<Rightarrow> u8 \<Rightarrow> int + u8" where
  "touchpad_parse buf idx =
     (if idx = CFG_WINDOWS_MODE \<or> idx = CFG_LINUX_MODE then match_val TOUCHPAD_MODE_TEXT buf
      else Inl (- EINVAL))"

definition touchpad_property_store ::
  "'d env \<Rightarrow> string \<Rightarrow> u64 \<Rightarrow> u8 \<Rightarrow> 'd world \<Rightarrow> int \<times> 'd world" where
  "touchpad_property_store e buf count idx w =
     (case touchpad_parse buf idx of
        Inl err \<Rightarrow> (err, w)
      | Inr val \<Rightarrow> property_set e SET_TP_PARAM idx val count w)"

text \<open>The rendering switch of \<open>gamepad_property_show\<close>: the value given to \<open>count\<close> and
  the text put into the buffer.\<close>

definition bounded_label :: "string list \<Rightarrow> u8 \<Rightarrow> u8 \<Rightarrow> int \<times> string" where
  "bounded_label table bound i = (if i > bound then (- EINVAL, []) else emit_label table i)"

definition gamepad_render :: "u8 \<Rightarrow> u8 \<Rightarrow> int \<times> string" where
  "gamepad_render idx i =
     (if idx = CFG_GAMEPAD_MODE then bounded_label GAMEPAD_MODE_TEXT DINPUT i
      else if idx = CFG_AUTO_SLP_TIME then emit_u8 i
      else if idx = CFG_IMU_ENABLE then bounded_label IMU_ENABLED_TEXT IMU_OFF_2S i
      else if idx = CFG_PASS_ENABLE \<or> idx = CFG_LIGHT_ENABLE \<or> idx = CFG_TPAD_ENABLE then
        bounded_label FEATURE_ENABLE_STATUS_TEXT FEATURE_ENABLED i
      else if idx = CFG_OS_TYPE then bounded_label OS_TYPE_TEXT LINUX i
      else if idx = CFG_POLL_RATE then bounded_label POLL_RATE_TEXT HZ1000 i
      else if idx = CFG_DPAD_MODE then bounded_label DPAD_MODE_TEXT DIR4 i
      else if idx = CFG_MS_WHEEL_STEP then
        (if i < 1 \<or> i > 127 then (- EINVAL, []) else emit_u8 i)
      else (- EINVAL, []))"


definition test_render :: "u8 \<Rightarrow> u8 \<Rightarrow> int \<times> string" where
  "test_render idx i =
     (if idx = TEST_TP_MFR then bounded_label TP_MANUFACTURER_TEXT TP_SIPO i
      else if idx = TEST_IMU_MFR then bounded_label IMU_MANUFACTURER_TEXT IMU_ST i
      else if idx = TEST_TP_VER then emit_u8 i
      else (- EINVAL, []))"

text \<open>The body shared by \<open>gamepad_property_show\<close>, \<open>touchpad_property_show\<close> and
  \<open>test_property_show\<close>: the GET command with no payload, its result stored in the
  unsigned \<open>count\<close> and tested with \<open>count < 0\<close>, then the device's status, then the
  rendering. The result is the returned \<open>ssize_t\<close> and the buffer's text.\<close>

definition property_show ::
  "'d env \<Rightarrow> u8 \<Rightarrow> (u8 \<Rightarrow> u8 \<Rightarrow> int \<times> string) \<Rightarrow> u8 \<Rightarrow> 'd world
   \<Rightarrow> (int \<times> string) \<times> 'd world" where
  "property_show e command render idx w =
     (let (ret, w1) = mcu_property_out e command idx [] 0 w;
          count = to_size_t ret
      in if count < 0 then ((to_ssize_t count, []), w1)
         else if last_cmd_ret (drvdata w1) \<noteq> 0 then ((- last_cmd_ret (drvdata w1), []), w1)
         else
           let i = last_cmd_val (drvdata w1);
               (c, text) = render idx i
           in ((to_ssize_t (to_size_t c), text), w1))"

definition gamepad_property_show ::
  "'d env \<Rightarrow> u8 \<Rightarrow> 'd world \<Rightarrow> (int \<times> string) \<times> 'd world" where
  "gamepad_property_show e idx w = property_show e GET_GAMEPAD_CFG gamepad_render idx w"


definition test_property_show ::
  "'d env \<Rightarrow> u8 \<Rightarrow> 'd world \<Rightarrow> (int \<times> string) \<times> 'd world" where
  "test_property_show e idx w = property_show e GET_PL_TEST test_render idx w"

subsection \<open>MCU identity\<close>

text \<open>\<open>memcmp\<close> against the all-zero array is non-zero exactly when some byte is.\<close>

definition mcu_id_get :: "'d env \<Rightarrow> 'd world \<Rightarrow> int \<times> 'd world" where
  "mcu_id_get e w =
     (if mcu_id (drvdata w) \<noteq> replicate 12 0 then (- ENOMEM, w)
      else
        let (ret, w1) = mcu_property_out e GET_MCU_ID NONE [] 0 w
        in if ret < 0 then (ret, w1) else (- last_cmd_ret (drvdata w1), w1))"

definition mcu_version_get :: "'d env \<Rightarrow> 'd world \<Rightarrow> int \<times> 'd world" where
  "mcu_version_get e w =
     (if mcu_ver (drvdata w) \<noteq> replicate 4 0 then (- ENOMEM, w)
      else
        let (ret, w1) = mcu_property_out e GET_VERSION NONE [] 0 w
        in if ret < 0 then (ret, w1) else (- last_cmd_ret (drvdata w1), w1))"

subsection \<open>RGB profile\<close>

text \<open>\<open>rgb_cfg_call\<close>: \<open>index\<close> is an \<open>enum LIGHT_CFG_INDEX\<close>, wider than the byte that
  goes on the wire.\<close>

definition rgb_cfg_call ::
  "'d env \<Rightarrow> u8 \<Rightarrow> nat \<Rightarrow> u8 list \<Rightarrow> nat \<Rightarrow> 'd world \<Rightarrow> int \<times> 'd world" where
  "rgb_cfg_call e cmd idx val sz w =
     (if cmd \<noteq> GET_LIGHT_CFG \<and> cmd \<noteq> SET_LIGHT_CFG then (- EINVAL, w)
      else if idx < LIGHT_MODE_SEL \<or> idx > USR_LIGHT_PROFILE_3 then (- EINVAL, w)
      else
        let (ret, w1) = mcu_property_out e cmd (of_nat idx) val sz w
        in if ret \<noteq> 0 then (ret, w1)
           else if last_cmd_ret (drvdata w1) \<noteq> 0 then (- last_cmd_ret (drvdata w1), w1)
           else (0, w1))"

definition rgb_profile_call ::
  "'d env \<Rightarrow> u8 \<Rightarrow> u8 list \<Rightarrow> nat \<Rightarrow> 'd world \<Rightarrow> int \<times> 'd world" where
  "rgb_profile_call e cmd val sz w =
     (if cmd \<noteq> SET_LIGHT_CFG \<and> cmd \<noteq> GET_LIGHT_CFG then (- EINVAL, w)
      else
        let idx = unat (rgb_profile (drvdata w)) + 2
        in rgb_cfg_call e cmd idx val sz w)"

definition rgb_write_profile :: "'d env \<Rightarrow> 'd world \<Rightarrow> int \<times> 'd world" where
  "rgb_write_profile e w =
     (let drv = drvdata w;
          profile = [rgb_effect drv,
                     ucast (led_intensity drv ! 0),
                     ucast (led_intensity drv ! 1),
                     ucast (led_intensity drv ! 2),
                     ucast (led_brightness drv),
                     rgb_speed drv]
      in rgb_profile_call e SET_LIGHT_CFG profile 6 w)"

definition rgb_attr_show :: "'d env \<Rightarrow> 'd world \<Rightarrow> int \<times> 'd world" where
  "rgb_attr_show e w =
     (let (ret, w1) = rgb_profile_call e GET_LIGHT_CFG [] 0 w
      in if ret < 0 then (ret, w1)
         else if last_cmd_ret (drvdata w1) \<noteq> 0 then (- last_cmd_ret (drvdata w1), w1)
         else (0, w1))"

definition rgb_attr_store :: "'d env \<Rightarrow> 'd world \<Rightarrow> int \<times> 'd world" where
  "rgb_attr_store e w =
     (if rgb_mode (drvdata w) \<noteq> RGB_MODE_CUSTOM then (- EINVAL, w)
      else
        let (ret, w1) = rgb_write_profile e w
        in if ret < 0 then (ret, w1)
           else if last_cmd_ret (drvdata w1) \<noteq> 0 then (- last_cmd_ret (drvdata w1), w1)
           else (0, w1))"

definition rgb_speed_show :: "'d env \<Rightarrow> 'd world \<Rightarrow> (int \<times> string) \<times> 'd world" where
  "rgb_speed_show e w =
     (let (ret, w1) = rgb_attr_show e w
      in if ret \<noteq> 0 then ((ret, []), w1)
         else (emit_u8 (rgb_speed (drvdata w1)), w1))"

definition rgb_speed_store :: "'d env \<Rightarrow> string \<Rightarrow> u64 \<Rightarrow> 'd world \<Rightarrow> int \<times> 'd world" where
  "rgb_speed_store e buf count w =
     (let (ret, val) = kstrtoint e buf
      in if ret \<noteq> 0 then (ret, w)
         else if 100 <s val \<or> val <s 0 then (- EINVAL, w)
         else
           let w1 = w\<lparr>drvdata := (drvdata w)\<lparr>rgb_speed := ucast val\<rparr>\<rparr>;
               (ret, w2) = rgb_attr_store e w1
           in if ret \<noteq> 0 then (ret, w2) else (to_ssize_t count, w2))"








subsection \<open>Transports and states for concrete runs\<close>

text \<open>The statically allocated \<open>drvdata\<close> before any command: all zero, with the LED
  class device as \<open>legos_cdev_rgb\<close> initialises it.\<close>

definition drvdata_init :: legos_cfg where
  "drvdata_init =
     \<lparr>send_cmd_complete = 0, last_cmd_ret = 0, last_cmd_val = 0,
      mcu_id = replicate 12 0, mcu_ver = replicate 4 0,
      rgb_profile = 0, rgb_effect = 0, rgb_speed = 0, rgb_mode = 0,
      led_intensity = [0x24, 0x22, 0x99], led_brightness = 0x50\<rparr>"

definition world_init :: "'d \<Rightarrow> 'd world" where
  "world_init d = \<lparr>drvdata = drvdata_init, device = d, sent = [], issued = []\<rparr>"

text \<open>A report as the MCU sends it: command, sub-index and payload, zero-filled to the
  packet size.\<close>

definition report_of :: "u8 \<Rightarrow> u8 \<Rightarrow> u8 list \<Rightarrow> u8 list" where
  "report_of cmd sub_cmd payload =
     [cmd, sub_cmd] @ payload @ replicate (GO_S_PACKET_SIZE - 2 - length payload) 0"

text \<open>Decimal parsers standing in for \<open>kstrtou8\<close> and \<open>kstrtoint\<close> (base 10) in
  concrete runs. Both read at least one digit, followed by at most one newline and
  nothing else. \<open>kstrtou8\<close> skips one leading \<open>+\<close> and answers \<open>-ERANGE\<close> above 255;
  \<open>kstrtoint\<close> takes a leading \<open>-\<close> (the digits then follow at once) or skips one
  leading \<open>+\<close>, and answers \<open>-ERANGE\<close> outside the 32-bit signed range. A magnitude
  that does not fit 64 bits is \<open>-ERANGE\<close>; anything else is \<open>-EINVAL\<close>.\<close>

fun parse_digits :: "string \<Rightarrow> nat \<Rightarrow> nat option" where
  "parse_digits [] acc = Some acc"
| "parse_digits (c # cs) acc =
     (if 48 \<le> (of_char c :: nat) \<and> (of_char c :: nat) \<le> 57
      then parse_digits cs (acc * 10 + (of_char c - 48))
      else None)"

definition chomp :: "string \<Rightarrow> string" where
  "chomp s = (if s \<noteq> [] \<and> last s = CHR 0x0A then butlast s else s)"

definition skip_plus :: "string \<Rightarrow> string" where
  "skip_plus s = (case s of [] \<Rightarrow> [] | c # cs \<Rightarrow> if c = CHR ''+'' then cs else s)"

definition parse_ull :: "string \<Rightarrow> int \<times> nat" where
  "parse_ull s =
     (if chomp s = [] then (- EINVAL, 0)
      else case parse_digits (chomp s) 0 of
             None \<Rightarrow> (- EINVAL, 0)
           | Some n \<Rightarrow> if n > 18446744073709551615 then (- ERANGE, 0) else (0, n))"

definition parse_u8 :: "string \<Rightarrow> int \<times> u8" where
  "parse_u8 s =
     (let (ret, n) = parse_ull (skip_plus s)
      in if ret \<noteq> 0 then (ret, 0)
         else if n > 255 then (- ERANGE, 0) else (0, of_nat n))"

definition parse_int :: "string \<Rightarrow> int \<times> u32" where
  "parse_int s =
     (if s \<noteq> [] \<and> hd s = CHR ''-'' then
        (let (ret, n) = parse_ull (tl s)
         in if ret \<noteq> 0 then (ret, 0)
            else if n > 2147483648 then (- ERANGE, 0) else (0, - of_nat n))
      else
        (let (ret, n) = parse_ull (skip_plus s)
         in if ret \<noteq> 0 then (ret, 0)
            else if n > 2147483647 then (- ERANGE, 0) else (0, of_nat n)))"

text \<open>A scripted transport: the device is the list of report batches still to come;
  every output report is accepted whole, and each wait receives the next batch. The
  empty script is a device that never answers.\<close>

definition scripted_env :: "u8 list list list env" where
  "scripted_env =
     \<lparr>endpoint_address = 0x83, cfg_intf_in = 0x83, kmemdup_ok = True,
      hw_output_report = (\<lambda>d buf. (int GO_S_PACKET_SIZE, d)),
      inbound = (\<lambda>d. case d of [] \<Rightarrow> ([], []) | batch # rest \<Rightarrow> (batch, rest)),
      signal_pending = False,
      kstrtou8 = parse_u8, kstrtoint = parse_int\<rparr>"

text \<open>Modelled from the spec: the transport stub of the round-trip property, which
  echoes the value sent by a SET back as the response to the matching GET. The device
  keeps one payload per GET command and sub-index. A SET of the gamepad, touchpad or
  light group (the command after its GET) stores the payload bytes of its frame and
  is acknowledged with status 0; any other command is answered with the payload kept
  for it.\<close>

record echo_dev =
  stored :: "u8 \<Rightarrow> u8 \<Rightarrow> nat \<Rightarrow> u8"
  outbox :: "u8 list list"

definition payload_of :: "u8 list \<Rightarrow> nat \<Rightarrow> u8" where
  "payload_of buf k = (if k + 2 < length buf then buf ! (k + 2) else 0)"

definition echo_output_report :: "echo_dev \<Rightarrow> u8 list \<Rightarrow> int \<times> echo_dev" where
  "echo_output_report d buf =
     (let cmd = buf ! 0; sub_cmd = buf ! 1
      in if cmd = SET_GAMEPAD_CFG \<or> cmd = SET_TP_PARAM \<or> cmd = SET_LIGHT_CFG then
           (int GO_S_PACKET_SIZE,
            d\<lparr>stored := (stored d)(cmd - 1 := (stored d (cmd - 1))(sub_cmd := payload_of buf)),
              outbox := [report_of cmd sub_cmd [0]]\<rparr>)
         else
           (int GO_S_PACKET_SIZE,
            d\<lparr>outbox := [report_of cmd sub_cmd
                          (map (stored d cmd sub_cmd) [0..<GO_S_PACKET_SIZE - 2])]\<rparr>))"

definition echo_inbound :: "echo_dev \<Rightarrow> u8 list list \<times> echo_dev" where
  "echo_inbound d = (outbox d, d\<lparr>outbox := []\<rparr>)"

definition echo_transport :: "echo_dev env \<Rightarrow> bool" where
  "echo_transport e \<longleftrightarrow>
     endpoint_address e = cfg_intf_in e \<and> kmemdup_ok e \<and> \<not> signal_pending e
     \<and> hw_output_report e = echo_output_report \<and> inbound e = echo_inbound"

definition echo_env :: "echo_dev env" where
  "echo_env =
     \<lparr>endpoint_address = 0x83, cfg_intf_in = 0x83, kmemdup_ok = True,
      hw_output_report = echo_output_report, inbound = echo_inbound,
      signal_pending = False,
      kstrtou8 = parse_u8, kstrtoint = parse_int\<rparr>"

definition echo_dev_init :: echo_dev where
  "echo_dev_init = \<lparr>stored = (\<lambda>_ _ _. 0), outbox = []\<rparr>"



section \<open>Properties of the fan controller\<close>

lemma probe_state_eq:
  "probe_state =
     \<lparr>data = \<lparr>fan_rpm = 0, fan_duty = 0, fan_mode = 0, temp = 0, last_updated = 1000,
              valid = True, curve_enabled = False,
              curve_temp = [10, 20, 30, 40, 50, 60, 70, 80, 90],
              curve_pwm = [20, 30, 40, 50, 60, 70, 80, 90, 100]\<rparr>,
      ec = (\<lambda>_. 0), ec_writes = [], timer_pending = False\<rparr>"
  by (simp add: probe_state_def zotac_fan_probe_def zotac_fan_update_device_def
      ec_read_byte_def Let_def upt_rec)

lemma probe_data_eq:
  "probe_data =
     \<lparr>fan_rpm = 0, fan_duty = 0, fan_mode = 0, temp = 0, last_updated = 1000,
      valid = True, curve_enabled = False,
      curve_temp = [10, 20, 30, 40, 50, 60, 70, 80, 90],
      curve_pwm = [20, 30, 40, 50, 60, 70, 80, 90, 100]\<rparr>"
  by (simp add: probe_data_def probe_state_eq)

text \<open>The curve table keeps its shape and its duty bound: the probe's defaults satisfy
  it, and neither store breaks it, whatever is written.\<close>

theorem curve_table_invariant:
  "curve_table_ok probe_data
   \<and> (curve_table_ok d \<longrightarrow>
        curve_table_ok (snd (pwm1_auto_point_pwm_store point parsed count d))
        \<and> curve_table_ok (snd (pwm1_auto_point_temp_store point parsed count d)))"
proof (intro conjI impI)
  show "curve_table_ok probe_data"
    by (simp add: curve_table_ok_def probe_data_eq)
next
  assume ok: "curve_table_ok d"
  obtain err v where pv: "parsed = (err, v)" by (cases parsed)
  have small: "ucast v \<le> (100 :: u32)" if "\<not> 100 < v"
  proof -
    from that have "uint v \<le> 100" by (simp add: word_less_def not_less)
    then have "uint (ucast v :: u32) \<le> 100"
      using uint_ge_0 [of v] by (simp add: unsigned_ucast_eq take_bit_int_eq_self)
    then show ?thesis by (simp add: word_le_def)
  qed
  show "curve_table_ok (snd (pwm1_auto_point_pwm_store point parsed count d))"
    using ok small
    by (auto simp add: pwm1_auto_point_pwm_store_def pv curve_table_ok_def list_all_iff
        dest!: set_update_subset_insert [THEN subsetD])
  show "curve_table_ok (snd (pwm1_auto_point_temp_store point parsed count d))"
    using ok by (simp add: pwm1_auto_point_temp_store_def pv curve_table_ok_def)
qed

theorem curve_table_invariant_witness:
  "curve_table_ok (snd (pwm1_auto_point_pwm_store 3 (0, 55) 3 probe_data))
   \<and> curve_pwm (snd (pwm1_auto_point_pwm_store 3 (0, 55) 3 probe_data))
       = [20, 30, 55, 50, 60, 70, 80, 90, 100]
   \<and> pwm1_auto_point_pwm_store 3 (0, 101) 4 probe_data = (- EINVAL, probe_data)"
proof -
  have a: "curve_table_ok (snd (pwm1_auto_point_pwm_store 3 (0, 55) 3 probe_data))"
    using curve_table_invariant [of probe_data 3 "(0, 55)" 3] by simp
  have b: "curve_pwm (snd (pwm1_auto_point_pwm_store 3 (0, 55) 3 probe_data))
       = [20, 30, 55, 50, 60, 70, 80, 90, 100]"
    by (simp add: pwm1_auto_point_pwm_store_def probe_data_eq)
  have c: "pwm1_auto_point_pwm_store 3 (0, 101) 4 probe_data = (- EINVAL, probe_data)"
    by (simp add: pwm1_auto_point_pwm_store_def)
  show ?thesis using a b c by simp
qed

lemma abs_div_le:
  fixes d off rng :: int
  assumes "0 \<le> off" "off < rng"
  shows "(\<bar>d\<bar> * off) div rng \<le> \<bar>d\<bar>"
proof -
  have "\<bar>d\<bar> * off \<le> \<bar>d\<bar> * rng" using assms by (simp add: mult_left_mono)
  then have "(\<bar>d\<bar> * off) div rng \<le> (\<bar>d\<bar> * rng) div rng"
    using assms by (intro zdiv_mono1) auto
  then show ?thesis using assms by simp
qed

lemma sdiv_nonneg_eq_div:
  fixes k l :: int
  assumes "0 \<le> k" "0 < l"
  shows "k sdiv l = k div l"
  using assms by (cases "k = 0") (simp_all add: signed_divide_int_def)

lemma sdiv_minus_left:
  fixes k l :: int
  shows "(- k) sdiv l = - (k sdiv l)"
  by (simp add: signed_divide_int_def)

lemma sdiv_interp_nonneg:
  fixes d off rng :: int
  assumes "0 \<le> off" "off < rng" "0 \<le> d"
  shows "0 \<le> (d * off) sdiv rng \<and> (d * off) sdiv rng \<le> d"
proof -
  have k: "0 \<le> d * off" using assms by simp
  have r: "0 < rng" using assms by simp
  have e: "(d * off) sdiv rng = (d * off) div rng" by (rule sdiv_nonneg_eq_div [OF k r])
  have "(d * off) div rng \<le> d" using abs_div_le [OF assms(1,2), of d] assms(3) by simp
  moreover have "0 \<le> (d * off) div rng" using k r by (simp add: pos_imp_zdiv_nonneg_iff)
  ultimately show ?thesis using e by simp
qed

lemma sdiv_interp_nonpos:
  fixes d off rng :: int
  assumes "0 \<le> off" "off < rng" "d \<le> 0"
  shows "d \<le> (d * off) sdiv rng \<and> (d * off) sdiv rng \<le> 0"
proof -
  have "0 \<le> ((- d) * off) sdiv rng \<and> ((- d) * off) sdiv rng \<le> - d"
    using assms by (intro sdiv_interp_nonneg) auto
  moreover have "((- d) * off) sdiv rng = - ((d * off) sdiv rng)"
    using sdiv_minus_left [of "d * off" rng] by simp
  ultimately show ?thesis by simp
qed

lemma sdiv_small:
  fixes k rng :: int
  assumes "\<bar>k\<bar> < rng"
  shows "k sdiv rng = 0"
  using assms by (auto simp: signed_divide_int_def)

lemma stb31: "- 2147483648 \<le> k \<Longrightarrow> k < 2147483648 \<Longrightarrow> signed_take_bit 31 (k::int) = k"
  using signed_take_bit_int_eq_self [of 31 k] by simp

lemma sint_small:
  assumes "uint (w :: u32) < 2147483648"
  shows "sint w = uint w"
proof -
  have "- 2147483648 \<le> uint w" using uint_ge_0 [of w] by linarith
  from stb31 [OF this assms] show ?thesis by (simp add: sint_uint)
qed

lemma sint_big:
  assumes a: "2147483648 \<le> uint (w :: u32)"
  shows "sint w < 0"
proof -
  have b: "uint w < 4294967296" using uint_bounded [of w] by simp
  have e: "uint w + 2147483648 = (uint w - 2147483648) + 4294967296" by linarith
  have "(uint w + 2147483648) mod 4294967296 = (uint w - 2147483648) mod 4294967296"
    by (simp only: e mod_add_self2)
  also have "\<dots> = uint w - 2147483648" using a b by (intro mod_pos_pos_trivial) linarith+
  finally show ?thesis using b
    by (simp add: sint_uint signed_take_bit_eq_take_bit_shift take_bit_eq_mod)
qed

lemma sint_diff_small:
  fixes a b :: u32
  assumes "uint a \<le> 100" "uint b \<le> 100"
  shows "sint (b - a) = uint b - uint a"
proof -
  have "sint a = uint a" "sint b = uint b" using assms by (simp_all add: sint_small)
  moreover have "- 2147483648 \<le> uint b - uint a" "uint b - uint a < 2147483648"
    using assms uint_ge_0 [of a] uint_ge_0 [of b] by linarith+
  ultimately show ?thesis
    by (simp add: sint_word_diff stb31)
qed

lemma interp_step:
  fixes A B L H t :: u32
  assumes A: "uint A \<le> 100" and B: "uint B \<le> 100"
    and lo: "L \<le> t" and hi: "t < H" and t: "uint t \<le> 255"
  shows "uint (if 0 <s H - L then A + sdiv32 ((B - A) * (t - L)) (H - L) else A)
         = uint A + ((uint B - uint A) * (uint t - uint L)) sdiv (uint H - uint L)"
proof -
  define d where "d = uint B - uint A"
  define off where "off = uint t - uint L"
  define R where "R = uint H - uint L"
  have lo': "uint L \<le> uint t" using lo by (simp add: word_le_def)
  have hi': "uint t < uint H" using hi by (simp add: word_less_def)
  have off0: "0 \<le> off" and offR: "off < R" and off255: "off \<le> 255"
    using lo' hi' t uint_ge_0 [of L] unfolding off_def R_def by linarith+
  have dA: "- 100 \<le> d" "d \<le> 100"
    using A B uint_ge_0 [of A] uint_ge_0 [of B] unfolding d_def by linarith+
  have uR: "uint (H - L) = R" using lo hi unfolding R_def
    by (intro uint_minus_simple_alt [THEN iffD1]) simp
  have uoff: "uint (t - L) = off" using lo unfolding off_def
    by (intro uint_minus_simple_alt [THEN iffD1]) simp
  have soff: "sint (t - L) = off" using uoff off255 by (simp add: sint_small)
  have sd: "sint (B - A) = d" unfolding d_def by (rule sint_diff_small [OF A B])
  have p1: "d * off \<le> 100 * 255"
    using dA off0 off255 by (intro mult_mono) linarith+
  have "(- d) * off \<le> 100 * 255"
    using dA off0 off255 by (intro mult_mono) linarith+
  then have p2: "- 25500 \<le> d * off" by simp
  have sp: "sint ((B - A) * (t - L)) = d * off"
    using p1 p2 by (simp add: sint_word_mult sd soff stb31)
  show ?thesis
  proof (cases "R < 2147483648")
    case True
    then have sR: "sint (H - L) = R" using uR by (simp add: sint_small)
    have pos: "0 <s H - L" using sR offR off0 by (simp add: word_sless_alt)
    define q where "q = (d * off) sdiv R"
    have qb: "0 \<le> uint A + q \<and> uint A + q \<le> 100"
    proof (cases "0 \<le> d")
      case True
      from sdiv_interp_nonneg [OF off0 offR True] show ?thesis
        using A B uint_ge_0 [of A] unfolding q_def d_def by linarith
    next
      case False
      then have "d \<le> 0" by simp
      from sdiv_interp_nonpos [OF off0 offR this] show ?thesis
        using A B uint_ge_0 [of B] unfolding q_def d_def by linarith
    qed
    have "uint (A + sdiv32 ((B - A) * (t - L)) (H - L)) = (uint A + q) mod 4294967296"
      by (simp add: sdiv32_def sp sR q_def uint_word_ariths uint_word_of_int mod_add_right_eq)
    also have "\<dots> = uint A + q" using qb by (intro mod_pos_pos_trivial) linarith+
    finally show ?thesis using pos by (simp add: q_def d_def off_def R_def)
  next
    case False
    then have "sint (H - L) < 0" using uR by (simp add: sint_big)
    then have neg: "\<not> 0 <s H - L" by (simp add: word_sless_alt)
    have "\<bar>d * off\<bar> < R" using p1 p2 False by linarith
    then have "(d * off) sdiv R = 0" by (rule sdiv_small)
    then show ?thesis using neg by (simp add: d_def off_def R_def)
  qed
qed

lemma u32_le_100: "(w :: u32) \<le> 100 \<Longrightarrow> uint w \<le> 100"
  by (simp add: word_le_def)

lemma fan_curve_loop_find:
  "length ct = 9 \<Longrightarrow> length cp = 9 \<Longrightarrow> \<forall>p\<in>set cp. p \<le> 100 \<Longrightarrow> uint t \<le> 255 \<Longrightarrow>
   uint (fan_curve_loop t ct cp i acc) =
     (case find (interval_matches (uint t) (map uint ct)) [i..<8] of
        None \<Rightarrow> uint acc
      | Some j \<Rightarrow> interpolate (uint t) (map uint ct) (map uint cp) j)"
proof (induction t ct cp i acc rule: fan_curve_loop.induct)
  case (1 t ct cp i acc)
  note len = "1.prems"(1,2) and pwm = "1.prems"(3) and t = "1.prems"(4)
  show ?case
  proof (cases "i < 8")
    case False
    then have "[i..<8] = []" by simp
    moreover have "fan_curve_loop t ct cp i acc = acc"
      using False by (subst fan_curve_loop.simps) simp
    ultimately show ?thesis by simp
  next
    case True
    then have upt: "[i..<8] = i # [Suc i..<8]" by (simp add: upt_conv_Cons)
    have nth:
      "map uint ct ! i = uint (ct ! i)" "map uint ct ! Suc i = uint (ct ! Suc i)"
      "map uint cp ! i = uint (cp ! i)" "map uint cp ! Suc i = uint (cp ! Suc i)"
      using True len by simp_all
    show ?thesis
    proof (cases "ct ! i \<le> t \<and> t < ct ! (i + 1)")
      case m: True
      then have lo: "ct ! i \<le> t" and hi: "t < ct ! Suc i" by simp_all
      have im: "interval_matches (uint t) (map uint ct) i"
        using lo hi nth by (simp add: interval_matches_def word_le_def word_less_def)
      have step: "fan_curve_loop t ct cp i acc =
          (if 0 <s ct ! Suc i - ct ! i
           then cp ! i + sdiv32 ((cp ! Suc i - cp ! i) * (t - ct ! i)) (ct ! Suc i - ct ! i)
           else cp ! i)"
        using True m by (subst fan_curve_loop.simps) (simp add: Let_def)
      have A: "uint (cp ! i) \<le> 100" and B: "uint (cp ! Suc i) \<le> 100"
        using pwm True len by (simp_all add: u32_le_100)
      have R: "uint (ct ! Suc i) - uint (ct ! i) \<noteq> 0"
        using lo hi by (simp add: word_le_def word_less_def)
      show ?thesis
        using interp_step [OF A B lo hi t] R
        by (simp add: upt im step interpolate_def nth)
    next
      case nm: False
      then have nim: "\<not> interval_matches (uint t) (map uint ct) i"
        using nth by (simp add: interval_matches_def word_le_def word_less_def)
      have step: "fan_curve_loop t ct cp i acc = fan_curve_loop t ct cp (i + 1) acc"
        using True nm by (subst fan_curve_loop.simps) auto
      show ?thesis
        using "1.IH" [OF _ nm len pwm t] True by (simp add: upt nim step)
    qed
  qed
qed

lemma fan_curve_pwm_refines:
  assumes len: "length ct = 9" "length cp = 9"
    and pwm: "\<forall>p\<in>set cp. p \<le> 100"
  shows "uint (fan_curve_pwm (ucast (t :: u8)) ct cp)
         = spec_curve_duty (uint t) (map uint ct) (map uint cp)"
proof -
  have ut: "uint (ucast t :: u32) = uint t" by (simp add: uint_up_ucast is_up)
  have t255: "uint (ucast t :: u32) \<le> 255" using uint_bounded [of t] ut by simp
  have n8: "map uint ct ! 8 = uint (ct ! 8)" "map uint cp ! 8 = uint (cp ! 8)"
           "map uint cp ! 0 = uint (cp ! 0)" using len by simp_all
  have loop: "uint (fan_curve_loop (ucast t) ct cp 0 (cp ! 0)) =
      (case find (interval_matches (uint t) (map uint ct)) [0..<8] of
         None \<Rightarrow> map uint cp ! 0
       | Some j \<Rightarrow> interpolate (uint t) (map uint ct) (map uint cp) j)"
    using fan_curve_loop_find [OF len pwm t255, of 0 "cp ! 0"] unfolding ut n8 .
  show ?thesis
    by (simp add: fan_curve_pwm_def spec_curve_duty_def n8(1,2) ut word_le_def loop)
qed

lemma chain_le:
  fixes T :: "('a :: linorder) list"
  assumes "\<forall>i<8. T ! i \<le> T ! (i + 1)"
  shows "i \<le> j \<Longrightarrow> j \<le> 8 \<Longrightarrow> T ! i \<le> T ! j"
proof (induction j)
  case 0
  then show ?case by simp
next
  case (Suc j)
  show ?case
  proof (cases "i = Suc j")
    case True
    then show ?thesis by simp
  next
    case False
    then have "T ! i \<le> T ! j" using Suc by simp
    moreover have "T ! j \<le> T ! Suc j" using assms Suc.prems by simp
    ultimately show ?thesis by simp
  qed
qed

lemma strict_chain_le:
  fixes T :: "('a :: linorder) list"
  assumes "\<forall>i<8. T ! i < T ! (i + 1)"
  shows "i \<le> j \<Longrightarrow> j \<le> 8 \<Longrightarrow> T ! i \<le> T ! j"
  using assms by (intro chain_le) (auto simp: less_imp_le)

lemma find_first_upt:
  assumes "k < n" "P k" "\<forall>j<k. \<not> P j"
  shows "find P [0..<n] = Some k"
  using assms by (auto simp: find_Some_iff intro!: exI [of _ k])

lemma find_none_upt:
  assumes "\<forall>j<n. \<not> P j"
  shows "find P [0..<n] = None"
  using assms by (simp add: find_None_iff)

lemma spec_at_breakpoint:
  assumes len: "length T = 9"
    and strict: "\<forall>i<8. T ! i < T ! (i + 1)"
    and k: "k < 9"
  shows "spec_curve_duty (T ! k) (T :: int list) P = P ! k"
proof (cases "k = 8")
  case True
  then show ?thesis by (simp add: spec_curve_duty_def)
next
  case False
  then have k8: "k < 8" using k by simp
  have lt: "T ! k < T ! Suc k" using strict k8 by simp
  have "T ! Suc k \<le> T ! 8" using k8 by (intro strict_chain_le [OF strict]) simp_all
  then have top: "\<not> T ! 8 \<le> T ! k" using lt by simp
  have before: "\<forall>j<k. \<not> interval_matches (T ! k) T j"
  proof (intro allI impI)
    fix j assume "j < k"
    then have "T ! Suc j \<le> T ! k" using k8 by (intro strict_chain_le [OF strict]) simp_all
    then show "\<not> interval_matches (T ! k) T j" by (simp add: interval_matches_def)
  qed
  have "find (interval_matches (T ! k) T) [0..<8] = Some k"
    using k8 lt before by (intro find_first_upt) (simp_all add: interval_matches_def)
  then show ?thesis using top by (simp add: spec_curve_duty_def interpolate_def)
qed

lemma spec_below_first:
  assumes mono: "\<forall>i<8. T ! i \<le> T ! (i + 1)" and low: "t < T ! 0"
  shows "spec_curve_duty t (T :: int list) P = P ! 0"
proof -
  have ge: "T ! 0 \<le> T ! j" if "j \<le> 8" for j using that by (intro chain_le [OF mono]) simp_all
  have "\<not> T ! 8 \<le> t" using ge [of 8] low by simp
  moreover have "find (interval_matches t T) [0..<8] = None"
  proof (rule find_none_upt, intro allI impI)
    fix j :: nat assume "j < 8"
    then have "T ! 0 \<le> T ! j" by (intro ge) simp
    then show "\<not> interval_matches t T j" using low by (simp add: interval_matches_def)
  qed
  ultimately show ?thesis by (simp add: spec_curve_duty_def)
qed

lemma ec_addr_id: "ec_addr a = a"
proof -
  have m: "(0xFF :: u16) = mask 8" by (simp add: mask_eq_exp_minus_1)
  show ?thesis
    unfolding ec_addr_def Let_def m
    by (rule bit_word_eqI) (auto simp add: bit_simps)
qed

lemma fan_curve_pwm_table:
  assumes len: "length ct = FAN_CURVE_POINTS" "length cp = FAN_CURVE_POINTS"
    and pwm: "\<forall>p\<in>set cp. p \<le> 100"
  shows "uint (fan_curve_pwm (ucast (t :: u8)) ct cp)
           = spec_curve_duty (uint t) (map uint ct) (map uint cp)
         \<and> (sorted_wrt (<) ct \<longrightarrow>
              (\<forall>k<FAN_CURVE_POINTS. ucast t = ct ! k \<longrightarrow> fan_curve_pwm (ucast t) ct cp = cp ! k))
         \<and> (sorted ct \<and> ucast t < ct ! 0 \<longrightarrow> fan_curve_pwm (ucast t) ct cp = cp ! 0)"
proof (intro conjI impI allI)
  show ref: "uint (fan_curve_pwm (ucast t) ct cp)
           = spec_curve_duty (uint t) (map uint ct) (map uint cp)"
    by (rule fan_curve_pwm_refines [OF len pwm])
  have ut: "uint (ucast t :: u32) = uint t" by (simp add: uint_up_ucast is_up)
  {
    fix k assume strict: "sorted_wrt (<) ct" and k: "k < FAN_CURVE_POINTS"
      and at: "(ucast t :: u32) = ct ! k"
    have chain: "\<forall>i<8. map uint ct ! i < map uint ct ! (i + 1)"
    proof (intro allI impI)
      fix i :: nat assume "i < 8"
      then have "ct ! i < ct ! (i + 1)"
        using len by (intro sorted_wrt_nth_less [OF strict]) simp_all
      then show "map uint ct ! i < map uint ct ! (i + 1)"
        using \<open>i < 8\<close> len by (simp add: word_less_def)
    qed
    have "uint t = map uint ct ! k" using at ut k len by simp
    then have "spec_curve_duty (uint t) (map uint ct) (map uint cp) = map uint cp ! k"
      using spec_at_breakpoint [of "map uint ct" k "map uint cp"] chain k len by simp
    then have "uint (fan_curve_pwm (ucast t) ct cp) = uint (cp ! k)"
      using ref k len by simp
    then show "fan_curve_pwm (ucast t) ct cp = cp ! k" by (rule word_uint_eqI)
  }
  {
    assume low: "sorted ct \<and> (ucast t :: u32) < ct ! 0"
    have mono: "\<forall>i<8. map uint ct ! i \<le> map uint ct ! (i + 1)"
    proof (intro allI impI)
      fix i :: nat assume "i < 8"
      then have "ct ! i \<le> ct ! (i + 1)"
        using low len by (intro sorted_nth_mono [of ct]) simp_all
      then show "map uint ct ! i \<le> map uint ct ! (i + 1)"
        using \<open>i < 8\<close> len by (simp add: word_le_def)
    qed
    have "uint t < map uint ct ! 0" using low ut len by (simp add: word_less_def)
    then have "spec_curve_duty (uint t) (map uint ct) (map uint cp) = map uint cp ! 0"
      by (rule spec_below_first [OF mono])
    then have "uint (fan_curve_pwm (ucast t) ct cp) = uint (cp ! 0)"
      using ref len by simp
    then show "fan_curve_pwm (ucast t) ct cp = cp ! 0" by (rule word_uint_eqI)
  }
qed

lemma interp_step_le:
  fixes A B L H t :: u32
  assumes A: "uint A \<le> 100" and B: "uint B \<le> 100"
    and lo: "L \<le> t" and hi: "t < H" and t: "uint t \<le> 255"
  shows "uint (if 0 <s H - L then A + sdiv32 ((B - A) * (t - L)) (H - L) else A) \<le> 100"
proof -
  have off0: "0 \<le> uint t - uint L" and offR: "uint t - uint L < uint H - uint L"
    using lo hi by (simp_all add: word_le_def word_less_def)
  have "uint A + ((uint B - uint A) * (uint t - uint L)) sdiv (uint H - uint L) \<le> 100"
  proof (cases "0 \<le> uint B - uint A")
    case True
    from sdiv_interp_nonneg [OF off0 offR True] show ?thesis using B by linarith
  next
    case False
    then have "uint B - uint A \<le> 0" by simp
    from sdiv_interp_nonpos [OF off0 offR this] show ?thesis using A by linarith
  qed
  then show ?thesis using interp_step [OF A B lo hi t] by simp
qed

lemma fan_curve_loop_le:
  "length ct = 9 \<Longrightarrow> length cp = 9 \<Longrightarrow> \<forall>p\<in>set cp. p \<le> 100 \<Longrightarrow> uint t \<le> 255 \<Longrightarrow>
   acc \<le> 100 \<Longrightarrow> fan_curve_loop t ct cp i acc \<le> 100"
proof (induction t ct cp i acc rule: fan_curve_loop.induct)
  case (1 t ct cp i acc)
  note len = "1.prems"(1,2) and pwm = "1.prems"(3) and t = "1.prems"(4) and acc = "1.prems"(5)
  show ?case
  proof (cases "i < 8")
    case False
    then have "fan_curve_loop t ct cp i acc = acc"
      by (subst fan_curve_loop.simps) simp
    then show ?thesis using acc by simp
  next
    case True
    show ?thesis
    proof (cases "ct ! i \<le> t \<and> t < ct ! (i + 1)")
      case m: True
      then have lo: "ct ! i \<le> t" and hi: "t < ct ! Suc i" by simp_all
      have step: "fan_curve_loop t ct cp i acc =
          (if 0 <s ct ! Suc i - ct ! i
           then cp ! i + sdiv32 ((cp ! Suc i - cp ! i) * (t - ct ! i)) (ct ! Suc i - ct ! i)
           else cp ! i)"
        using True m by (subst fan_curve_loop.simps) (simp add: Let_def)
      have A: "uint (cp ! i) \<le> 100" and B: "uint (cp ! Suc i) \<le> 100"
        using pwm True len by (simp_all add: u32_le_100)
      from interp_step_le [OF A B lo hi t] show ?thesis
        unfolding step by (simp add: word_le_def)
    next
      case nm: False
      have step: "fan_curve_loop t ct cp i acc = fan_curve_loop t ct cp (i + 1) acc"
        using True nm by (subst fan_curve_loop.simps) auto
      show ?thesis
        using "1.IH" [OF _ nm len pwm t acc] True by (simp add: step)
    qed
  qed
qed

lemma fan_curve_pwm_le:
  assumes ok: "curve_table_ok d"
  shows "fan_curve_pwm (ucast (t :: u8)) (curve_temp d) (curve_pwm d) \<le> 100"
proof -
  from ok have len: "length (curve_temp d) = 9" "length (curve_pwm d) = 9"
    and pwm: "\<forall>p\<in>set (curve_pwm d). p \<le> 100"
    by (simp_all add: curve_table_ok_def list_all_iff)
  have ut: "uint (ucast t :: u32) = uint t" by (simp add: uint_up_ucast is_up)
  have t255: "uint (ucast t :: u32) \<le> 255" using uint_bounded [of t] ut by simp
  have p0: "curve_pwm d ! 0 \<le> 100" and p8: "curve_pwm d ! 8 \<le> 100"
    using pwm len by simp_all
  show ?thesis
    using fan_curve_loop_le [OF len pwm t255 p0, of 0] p8
    by (simp add: fan_curve_pwm_def)
qed

lemma fan_curve_function_tick:
  assumes en: "curve_enabled (data s)" and ok: "curve_table_ok (data s)"
  shows "fan_curve_function s =
     (let current_temp = ec_read_byte EC_CPU_TEMP_ADDR s;
          pwm = fan_curve_pwm (ucast current_temp) (curve_temp (data s)) (curve_pwm (data s));
          duty_val :: u8 = ucast (pwm * 255 div 100)
      in s\<lparr>data := (data s)\<lparr>temp := ucast current_temp\<rparr>,
           ec := (ec s)(EC_FAN_DUTY_ADDR := duty_val),
           ec_writes := ec_writes s @ [(EC_FAN_DUTY_ADDR, duty_val)],
           timer_pending := True\<rparr>)"
proof -
  have "\<not> 100 < fan_curve_pwm (ucast (ec_read_byte EC_CPU_TEMP_ADDR s))
                 (curve_temp (data s)) (curve_pwm (data s))"
    using fan_curve_pwm_le [OF ok] by (simp add: not_less)
  then show ?thesis
    using en
    by (simp add: fan_curve_function_def set_fan_duty_internal_def ec_write_byte_def
        ec_addr_id Let_def)
qed

text \<open>C3. One tick of the curve evaluator \<open>fan_curve_function\<close>, while the curve is
  enabled, reads the temperature byte, stores it, computes a duty from it and the nine
  stored points, writes that duty scaled to 0-255 to the fan-duty register (the only EC
  write of the tick) and re-arms the timer; while the curve is disabled it does
  nothing. The duty is the one the specification words: the last point's duty at or
  above the last temperature; otherwise the truncating linear interpolation in the
  first interval (in stored order) that holds the temperature, the interval's first
  duty when its width is zero; the first point's duty when no interval does. The table
  is any that the probe and the stores can leave: nine points, no duty above 100,
  temperatures arbitrary 32-bit values in any order. The two corollaries of the
  specification need an ordering the driver does not enforce: for strictly increasing
  temperatures a temperature at a breakpoint gives that breakpoint's duty, and for
  ordered temperatures a temperature below the first breakpoint gives the first duty.\<close>

theorem fan_curve_pwm_interpolates:
  assumes ok: "curve_table_ok d"
  shows "uint (fan_curve_pwm (ucast (t :: u8)) (curve_temp d) (curve_pwm d))
           = spec_curve_duty (uint t) (map uint (curve_temp d)) (map uint (curve_pwm d))
         \<and> (sorted_wrt (<) (curve_temp d) \<longrightarrow>
              (\<forall>k<FAN_CURVE_POINTS. ucast t = curve_temp d ! k \<longrightarrow>
                 fan_curve_pwm (ucast t) (curve_temp d) (curve_pwm d) = curve_pwm d ! k))
         \<and> (sorted (curve_temp d) \<and> ucast t < curve_temp d ! 0 \<longrightarrow>
              fan_curve_pwm (ucast t) (curve_temp d) (curve_pwm d) = curve_pwm d ! 0)
         \<and> (data s = d \<and> curve_enabled d \<longrightarrow>
              fan_curve_function s =
                (let current_temp = ec_read_byte EC_CPU_TEMP_ADDR s;
                     pwm = fan_curve_pwm (ucast current_temp) (curve_temp d) (curve_pwm d);
                     duty_val :: u8 = ucast (pwm * 255 div 100)
                 in s\<lparr>data := d\<lparr>temp := ucast current_temp\<rparr>,
                      ec := (ec s)(EC_FAN_DUTY_ADDR := duty_val),
                      ec_writes := ec_writes s @ [(EC_FAN_DUTY_ADDR, duty_val)],
                      timer_pending := True\<rparr>))
         \<and> (\<not> curve_enabled (data s) \<longrightarrow> fan_curve_function s = s)"
proof -
  from ok have len: "length (curve_temp d) = FAN_CURVE_POINTS"
      "length (curve_pwm d) = FAN_CURVE_POINTS"
    and pwm: "\<forall>p\<in>set (curve_pwm d). p \<le> 100"
    by (simp_all add: curve_table_ok_def list_all_iff)
  note table = fan_curve_pwm_table [OF len pwm, of t]
  have tick: "fan_curve_function s =
                (let current_temp = ec_read_byte EC_CPU_TEMP_ADDR s;
                     pwm = fan_curve_pwm (ucast current_temp) (curve_temp d) (curve_pwm d);
                     duty_val :: u8 = ucast (pwm * 255 div 100)
                 in s\<lparr>data := d\<lparr>temp := ucast current_temp\<rparr>,
                      ec := (ec s)(EC_FAN_DUTY_ADDR := duty_val),
                      ec_writes := ec_writes s @ [(EC_FAN_DUTY_ADDR, duty_val)],
                      timer_pending := True\<rparr>)"
    if "data s = d \<and> curve_enabled d"
    using that ok fan_curve_function_tick [of s] by simp
  have off: "fan_curve_function s = s" if "\<not> curve_enabled (data s)"
    using that by (simp add: fan_curve_function_def)
  show ?thesis using table tick off by blast
qed

theorem fan_curve_pwm_interpolates_witness:
  "curve_table_ok probe_data
   \<and> fan_curve_pwm (ucast (15 :: u8)) (curve_temp probe_data) (curve_pwm probe_data) = 25
   \<and> spec_curve_duty 15 [10, 20, 30, 40, 50, 60, 70, 80, 90]
        [20, 30, 40, 50, 60, 70, 80, 90, 100] = 25
   \<and> fan_curve_pwm (ucast (20 :: u8)) (curve_temp probe_data) (curve_pwm probe_data) = 30
   \<and> fan_curve_pwm (ucast (5 :: u8)) (curve_temp probe_data) (curve_pwm probe_data) = 20
   \<and> fan_curve_pwm (ucast (95 :: u8)) (curve_temp probe_data) (curve_pwm probe_data) = 100
   \<and> ec_writes (fan_curve_function
        (probe_state\<lparr>data := probe_data\<lparr>curve_enabled := True\<rparr>,
                      ec := (\<lambda>_. 0)(EC_CPU_TEMP_ADDR := 15)\<rparr>))
       = [(EC_FAN_DUTY_ADDR, 63)]"
proof -
  have ct: "curve_temp probe_data = [10, 20, 30, 40, 50, 60, 70, 80, 90]"
    by (simp add: probe_data_eq)
  have cp: "curve_pwm probe_data = [20, 30, 40, 50, 60, 70, 80, 90, 100]"
    by (simp add: probe_data_eq)
  have ok: "curve_table_ok probe_data" by (simp add: curve_table_ok_def ct cp)
  note th = fan_curve_pwm_interpolates [OF ok]
  have strict: "sorted_wrt (<) (curve_temp probe_data)" by (simp add: ct)
  have mono: "sorted (curve_temp probe_data)" by (simp add: ct)
  have s15: "spec_curve_duty 15 [10, 20, 30, 40, 50, 60, 70, 80, 90]
        [20, 30, 40, 50, 60, 70, 80, 90, 100] = 25"
    by (simp add: spec_curve_duty_def interval_matches_def interpolate_def upt_rec
        signed_divide_int_def)
  have "uint (fan_curve_pwm (ucast (15 :: u8)) (curve_temp probe_data) (curve_pwm probe_data)) = 25"
    using th [of 15] s15 by (simp add: ct cp)
  then have a: "fan_curve_pwm (ucast (15 :: u8)) (curve_temp probe_data) (curve_pwm probe_data) = 25"
    by (intro word_uint_eqI) simp
  have "\<forall>k<FAN_CURVE_POINTS. ucast (20 :: u8) = curve_temp probe_data ! k \<longrightarrow>
          fan_curve_pwm (ucast (20 :: u8)) (curve_temp probe_data) (curve_pwm probe_data)
            = curve_pwm probe_data ! k"
    using th [of 20] strict by blast
  then have b: "fan_curve_pwm (ucast (20 :: u8)) (curve_temp probe_data) (curve_pwm probe_data) = 30"
    by (elim allE [of _ 1]) (simp add: ct cp)
  have c: "fan_curve_pwm (ucast (5 :: u8)) (curve_temp probe_data) (curve_pwm probe_data) = 20"
    using th [of 5] mono by (simp add: ct cp)
  have "spec_curve_duty 95 [10, 20, 30, 40, 50, 60, 70, 80, 90]
        [20, 30, 40, 50, 60, 70, 80, 90, 100] = 100"
    by (simp add: spec_curve_duty_def)
  then have "uint (fan_curve_pwm (ucast (95 :: u8)) (curve_temp probe_data) (curve_pwm probe_data)) = 100"
    using th [of 95] by (simp add: ct cp)
  then have d: "fan_curve_pwm (ucast (95 :: u8)) (curve_temp probe_data) (curve_pwm probe_data) = 100"
    by (intro word_uint_eqI) simp
  let ?s = "probe_state\<lparr>data := probe_data\<lparr>curve_enabled := True\<rparr>,
                      ec := (\<lambda>_. 0)(EC_CPU_TEMP_ADDR := 15)\<rparr>"
  have ok': "curve_table_ok (probe_data\<lparr>curve_enabled := True\<rparr>)"
    using ok by (simp add: curve_table_ok_def)
  have "fan_curve_function ?s =
          (let current_temp = ec_read_byte EC_CPU_TEMP_ADDR ?s;
               pwm = fan_curve_pwm (ucast current_temp)
                       (curve_temp (probe_data\<lparr>curve_enabled := True\<rparr>))
                       (curve_pwm (probe_data\<lparr>curve_enabled := True\<rparr>));
               duty_val :: u8 = ucast (pwm * 255 div 100)
           in ?s\<lparr>data := (probe_data\<lparr>curve_enabled := True\<rparr>)\<lparr>temp := ucast current_temp\<rparr>,
                ec := (ec ?s)(EC_FAN_DUTY_ADDR := duty_val),
                ec_writes := ec_writes ?s @ [(EC_FAN_DUTY_ADDR, duty_val)],
                timer_pending := True\<rparr>)"
    using fan_curve_pwm_interpolates [OF ok', of _ ?s] by simp
  then have e: "ec_writes (fan_curve_function ?s) = [(EC_FAN_DUTY_ADDR, 63)]"
    using a by (simp add: Let_def ec_read_byte_def ec_addr_id probe_state_eq)
  show ?thesis using ok a b c d e s15 by simp
qed

text \<open>Without the ordering the two corollaries fail. Two temperature stores on the
  probe's table (point 1 to 50, point 4 to 10) leave the temperatures
  50, 20, 30, 10, 50, 60, 70, 80, 90. A temperature of 30 is the third breakpoint, whose
  duty is 40, but the first interval that holds it is the one from 10 to 50, and the
  evaluator gives 55. A temperature of 25 is below the first breakpoint, whose duty is
  20, but the interval from 20 to 30 holds it, and the evaluator gives 35.\<close>

theorem breakpoint_duty_on_unordered_table:
  "(let d = snd (pwm1_auto_point_temp_store 4 (0, 10) 3
                  (snd (pwm1_auto_point_temp_store 1 (0, 50) 3 probe_data)))
    in curve_table_ok d
       \<and> curve_temp d = [50, 20, 30, 10, 50, 60, 70, 80, 90]
       \<and> curve_pwm d = [20, 30, 40, 50, 60, 70, 80, 90, 100]
       \<and> ucast (30 :: u8) = curve_temp d ! 2
       \<and> curve_pwm d ! 2 = 40
       \<and> fan_curve_pwm (ucast (30 :: u8)) (curve_temp d) (curve_pwm d) = 55
       \<and> ucast (25 :: u8) < curve_temp d ! 0
       \<and> curve_pwm d ! 0 = 20
       \<and> fan_curve_pwm (ucast (25 :: u8)) (curve_temp d) (curve_pwm d) = 35)"
proof -
  have d: "snd (pwm1_auto_point_temp_store 4 (0, 10) 3
                  (snd (pwm1_auto_point_temp_store 1 (0, 50) 3 probe_data)))
           = probe_data\<lparr>curve_temp := [50, 20, 30, 10, 50, 60, 70, 80, 90]\<rparr>"
    by (simp add: pwm1_auto_point_temp_store_def probe_data_eq)
  have a: "fan_curve_pwm (ucast (30 :: u8)) [50, 20, 30, 10, 50, 60, 70, 80, 90]
             [20, 30, 40, 50, 60, 70, 80, 90, 100] = 55"
    by code_simp
  have b: "fan_curve_pwm (ucast (25 :: u8)) [50, 20, 30, 10, 50, 60, 70, 80, 90]
             [20, 30, 40, 50, 60, 70, 80, 90, 100] = 35"
    by code_simp
  have cp: "curve_pwm probe_data = [20, 30, 40, 50, 60, 70, 80, 90, 100]"
    by (simp add: probe_data_eq)
  show ?thesis unfolding d Let_def using a b by (simp add: cp curve_table_ok_def)
qed

text \<open>C4. \<open>set_fan_mode\<close> issues exactly one EC write, to the fan-control register, and
  its value is never the Curve value: Curve is written as Manual, with the curve flag
  set and the timer armed. After Curve and then Auto the control register holds Auto,
  the curve flag is clear, the timer is not armed, and a timer callback that still
  fires changes nothing.\<close>

theorem set_fan_mode_never_writes_curve:
  "(let s' = snd (set_fan_mode mode s) in
      ec_writes s' = ec_writes s @
          [(EC_FAN_CTRL_ADDR, if mode = EC_FAN_MODE_CURVE then EC_FAN_MODE_MANUAL else mode)]
      \<and> snd (last (ec_writes s')) \<noteq> EC_FAN_MODE_CURVE
      \<and> (mode = EC_FAN_MODE_CURVE \<longrightarrow>
            ec s' EC_FAN_CTRL_ADDR = EC_FAN_MODE_MANUAL \<and> curve_enabled (data s')
            \<and> timer_pending s'))
   \<and> (let s2 = snd (set_fan_mode EC_FAN_MODE_AUTO (snd (set_fan_mode EC_FAN_MODE_CURVE s))) in
        ec s2 EC_FAN_CTRL_ADDR = EC_FAN_MODE_AUTO \<and> \<not> curve_enabled (data s2)
        \<and> \<not> timer_pending s2 \<and> fan_curve_function s2 = s2)"
  by (simp add: set_fan_mode_def ec_write_byte_def ec_addr_id Let_def fan_curve_function_def)

theorem set_fan_mode_never_writes_curve_witness:
  "ec_writes (snd (set_fan_mode EC_FAN_MODE_CURVE probe_state))
     = [(EC_FAN_CTRL_ADDR, EC_FAN_MODE_MANUAL)]
   \<and> timer_pending (snd (set_fan_mode EC_FAN_MODE_CURVE probe_state))
   \<and> ec (snd (set_fan_mode EC_FAN_MODE_AUTO (snd (set_fan_mode EC_FAN_MODE_CURVE probe_state))))
        EC_FAN_CTRL_ADDR = EC_FAN_MODE_AUTO"
  using set_fan_mode_never_writes_curve [of EC_FAN_MODE_CURVE probe_state]
  by (simp add: Let_def probe_state_eq)

section \<open>Properties of the MCU command engine\<close>

lemma raw_event_wrong_size:
  "length report \<noteq> GO_S_PACKET_SIZE \<Longrightarrow> legos_cfg_raw_event report drv = (- EINVAL, drv)"
  by (simp add: legos_cfg_raw_event_def)

lemma raw_event_completes:
  "length report = GO_S_PACKET_SIZE \<Longrightarrow>
   send_cmd_complete (snd (legos_cfg_raw_event report drv)) = send_cmd_complete drv + 1"
  by (simp add: legos_cfg_raw_event_def Let_def)

lemma deliver_wrong_size:
  "\<forall>r\<in>set reports. length r \<noteq> GO_S_PACKET_SIZE \<Longrightarrow> deliver reports drv = drv"
  by (induction reports arbitrary: drv) (simp_all add: raw_event_wrong_size)

lemma mcu_property_out_sent:
  assumes "endpoint_address e = cfg_intf_in e" "kmemdup_ok e" "\<not> signal_pending e"
    and "hw_output_report e (device w) (outbuf_of command idx val sz) = (int GO_S_PACKET_SIZE, dev1)"
    and "inbound e dev1 = (reports, dev2)"
  shows "mcu_property_out e command idx val sz w =
     (let drv1 = deliver reports ((drvdata w)\<lparr>last_cmd_ret := 0, last_cmd_val := 0\<rparr>)
      in (if 0 < send_cmd_complete drv1 then 0 else - EBUSY,
          w\<lparr>drvdata := drv1\<lparr>send_cmd_complete := 0\<rparr>,
            device := dev2,
            sent := sent w @ [outbuf_of command idx val sz],
            issued := issued w @ [(command, idx, sz)]\<rparr>))"
  using assms
  by (simp add: mcu_property_out_def legos_cfg_send_cmd_def wait_for_completion_def Let_def)

lemma scripted_env_ok:
  "endpoint_address scripted_env = cfg_intf_in scripted_env"
  "kmemdup_ok scripted_env" "\<not> signal_pending scripted_env"
  "hw_output_report scripted_env d buf = (int GO_S_PACKET_SIZE, d)"
  "inbound scripted_env [] = ([], [])"
  "inbound scripted_env (batch # rest) = (batch, rest)"
  by (simp_all add: scripted_env_def)

text \<open>C1. When the command has gone out (the endpoint matches and the output report was
  accepted whole) and no signal interrupts the wait: if no handled report signals the
  completion within the wait, \<open>mcu_property_out\<close> returns \<open>-EBUSY\<close>; if one does, it
  returns 0 whatever status the device reported, and that status is what
  \<open>last_cmd_ret\<close> holds afterwards.\<close>

theorem mcu_property_out_busy_or_success:
  assumes ep: "endpoint_address e = cfg_intf_in e" and mem: "kmemdup_ok e"
    and nosig: "\<not> signal_pending e"
    and send: "hw_output_report e (device w) (outbuf_of command idx val sz)
                 = (int GO_S_PACKET_SIZE, dev1)"
    and inb: "inbound e dev1 = (reports, dev2)"
  shows "(let drv1 = deliver reports ((drvdata w)\<lparr>last_cmd_ret := 0, last_cmd_val := 0\<rparr>);
              (ret, w') = mcu_property_out e command idx val sz w
          in (send_cmd_complete drv1 = 0 \<longrightarrow> ret = - EBUSY)
             \<and> (0 < send_cmd_complete drv1 \<longrightarrow>
                   ret = 0 \<and> last_cmd_ret (drvdata w') = last_cmd_ret drv1
                   \<and> last_cmd_val (drvdata w') = last_cmd_val drv1))"
  by (simp add: mcu_property_out_sent [OF ep mem nosig send inb] Let_def)

theorem mcu_property_out_busy_or_success_witness:
  "fst (mcu_property_out scripted_env GET_GAMEPAD_CFG CFG_GAMEPAD_MODE [] 0 (world_init []))
     = - EBUSY
   \<and> fst (mcu_property_out scripted_env SET_GAMEPAD_CFG CFG_GAMEPAD_MODE [1] 1
        (world_init [[report_of SET_GAMEPAD_CFG CFG_GAMEPAD_MODE [5]]])) = 0
   \<and> last_cmd_ret (drvdata (snd (mcu_property_out scripted_env SET_GAMEPAD_CFG CFG_GAMEPAD_MODE
        [1] 1 (world_init [[report_of SET_GAMEPAD_CFG CFG_GAMEPAD_MODE [5]]])))) = 5"
proof -
  have ep: "endpoint_address scripted_env = cfg_intf_in scripted_env"
    and mem: "kmemdup_ok scripted_env" and nosig: "\<not> signal_pending scripted_env"
    by (simp_all add: scripted_env_def)
  have send: "hw_output_report scripted_env (device (world_init d)) buf
                = (int GO_S_PACKET_SIZE, d)" for d buf
    by (simp add: scripted_env_def world_init_def)
  have inb0: "inbound scripted_env [] = ([], [])" by (simp add: scripted_env_def)
  have inb1: "inbound scripted_env [[report_of SET_GAMEPAD_CFG CFG_GAMEPAD_MODE [5]]]
                = ([report_of SET_GAMEPAD_CFG CFG_GAMEPAD_MODE [5]], [])"
    by (simp add: scripted_env_def)
  have a: "fst (mcu_property_out scripted_env GET_GAMEPAD_CFG CFG_GAMEPAD_MODE [] 0
                  (world_init [])) = - EBUSY"
    using mcu_property_out_busy_or_success [OF ep mem nosig send inb0]
    by (simp add: Let_def split_def world_init_def drvdata_init_def)
  have b: "fst (mcu_property_out scripted_env SET_GAMEPAD_CFG CFG_GAMEPAD_MODE [1] 1
        (world_init [[report_of SET_GAMEPAD_CFG CFG_GAMEPAD_MODE [5]]])) = 0
   \<and> last_cmd_ret (drvdata (snd (mcu_property_out scripted_env SET_GAMEPAD_CFG CFG_GAMEPAD_MODE
        [1] 1 (world_init [[report_of SET_GAMEPAD_CFG CFG_GAMEPAD_MODE [5]]])))) = 5"
    using mcu_property_out_busy_or_success [OF ep mem nosig send inb1]
    by (simp add: Let_def split_def world_init_def drvdata_init_def
        legos_cfg_raw_event_def report_of_def)
  show ?thesis using a b by simp
qed

text \<open>C2. A report of any other length than the packet size is rejected with \<open>-EINVAL\<close>
  before the driver data is touched: the completion is not signalled and no status
  is stored, so an issuer that receives only such reports is released by its timeout
  with \<open>-EBUSY\<close>. Every report of the packet size, whatever its command, signals the
  completion once.\<close>

theorem raw_event_length_guard:
  "(length report \<noteq> GO_S_PACKET_SIZE \<longrightarrow> legos_cfg_raw_event report drv = (- EINVAL, drv))
   \<and> (length report = GO_S_PACKET_SIZE \<longrightarrow>
        send_cmd_complete (snd (legos_cfg_raw_event report drv)) = send_cmd_complete drv + 1)
   \<and> (endpoint_address e = cfg_intf_in e \<and> kmemdup_ok e \<and> \<not> signal_pending e
        \<and> hw_output_report e (device w) (outbuf_of command idx val sz)
             = (int GO_S_PACKET_SIZE, dev1)
        \<and> inbound e dev1 = (reports, dev2)
        \<and> (\<forall>r\<in>set reports. length r \<noteq> GO_S_PACKET_SIZE)
        \<and> send_cmd_complete (drvdata w) = 0
        \<longrightarrow> fst (mcu_property_out e command idx val sz w) = - EBUSY)"
proof (intro conjI impI)
  show "legos_cfg_raw_event report drv = (- EINVAL, drv)"
    if "length report \<noteq> GO_S_PACKET_SIZE"
    using that by (rule raw_event_wrong_size)
  show "send_cmd_complete (snd (legos_cfg_raw_event report drv)) = send_cmd_complete drv + 1"
    if "length report = GO_S_PACKET_SIZE"
    using that by (rule raw_event_completes)
  show "fst (mcu_property_out e command idx val sz w) = - EBUSY"
    if h: "endpoint_address e = cfg_intf_in e \<and> kmemdup_ok e \<and> \<not> signal_pending e
        \<and> hw_output_report e (device w) (outbuf_of command idx val sz)
             = (int GO_S_PACKET_SIZE, dev1)
        \<and> inbound e dev1 = (reports, dev2)
        \<and> (\<forall>r\<in>set reports. length r \<noteq> GO_S_PACKET_SIZE)
        \<and> send_cmd_complete (drvdata w) = 0"
  proof -
    from h have d: "deliver reports ((drvdata w)\<lparr>last_cmd_ret := 0, last_cmd_val := 0\<rparr>)
                  = (drvdata w)\<lparr>last_cmd_ret := 0, last_cmd_val := 0\<rparr>"
      by (intro deliver_wrong_size) simp
    from h show ?thesis
      by (simp add: mcu_property_out_sent [of e w command idx val sz dev1 reports dev2] d Let_def)
  qed
qed

theorem raw_event_length_guard_witness:
  "legos_cfg_raw_event (replicate 64 0) drvdata_init = (- EINVAL, drvdata_init)
   \<and> send_cmd_complete (snd (legos_cfg_raw_event (report_of 0xFF 0 []) drvdata_init)) = 1
   \<and> last_cmd_ret (snd (legos_cfg_raw_event (report_of 0xFF 0 []) drvdata_init)) = EINVAL
   \<and> fst (mcu_property_out scripted_env GET_TP_PARAM CFG_LINUX_MODE [] 0
             (world_init [[replicate 66 7, []]])) = - EBUSY"
proof -
  have a: "legos_cfg_raw_event (replicate 64 0) drvdata_init = (- EINVAL, drvdata_init)"
    using raw_event_length_guard [of "replicate 64 0" drvdata_init, THEN conjunct1] by simp
  have "send_cmd_complete (snd (legos_cfg_raw_event (report_of 0xFF 0 []) drvdata_init))
          = send_cmd_complete drvdata_init + 1"
    using raw_event_length_guard [of "report_of 0xFF 0 []" drvdata_init,
        THEN conjunct2, THEN conjunct1]
    by (simp add: report_of_def)
  then have b: "send_cmd_complete (snd (legos_cfg_raw_event (report_of 0xFF 0 []) drvdata_init)) = 1"
    by (simp add: drvdata_init_def)
  have c: "last_cmd_ret (snd (legos_cfg_raw_event (report_of 0xFF 0 []) drvdata_init)) = EINVAL"
    by (simp add: legos_cfg_raw_event_def report_of_def Let_def)
  have d: "fst (mcu_property_out scripted_env GET_TP_PARAM CFG_LINUX_MODE [] 0
             (world_init [[replicate 66 7, []]])) = - EBUSY"
    using raw_event_length_guard [where e = scripted_env
        and w = "world_init [[replicate 66 7, []]]" and command = GET_TP_PARAM
        and idx = CFG_LINUX_MODE and val = "[]" and sz = 0
        and ?dev1.0 = "[[replicate 66 7, []]]" and reports = "[replicate 66 7, []]"
        and ?dev2.0 = "[]", THEN conjunct2, THEN conjunct2]
    by (simp add: scripted_env_ok world_init_def drvdata_init_def)
  show ?thesis using a b c d by simp
qed

text \<open>A 64-byte report: the completion count and the status stay 0, and the issuer
  whose only response it is times out.\<close>

theorem wrong_length_leaves_issuer_pending:
  "send_cmd_complete (snd (legos_cfg_raw_event (replicate 64 0) drvdata_init)) = 0
   \<and> last_cmd_ret (snd (legos_cfg_raw_event (replicate 64 0) drvdata_init)) = 0
   \<and> fst (mcu_property_out scripted_env GET_GAMEPAD_CFG CFG_GAMEPAD_MODE [] 0
        (world_init [[replicate 64 0]])) = - EBUSY"
  by (simp add: legos_cfg_raw_event_def drvdata_init_def mcu_property_out_def
      legos_cfg_send_cmd_def wait_for_completion_def scripted_env_def world_init_def Let_def)

text \<open>C5. With a device that never answers, the GET times out with \<open>-EBUSY\<close>, yet
  \<open>gamepad_property_show\<close> returns 7 and the text of the first label: the error is
  stored in the unsigned \<open>count\<close>, whose test \<open>count < 0\<close> never holds, and the reset
  \<open>last_cmd_val\<close> of 0 is rendered.\<close>

theorem gamepad_property_show_hides_busy:
  "fst (mcu_property_out scripted_env GET_GAMEPAD_CFG CFG_GAMEPAD_MODE [] 0 (world_init []))
     = - EBUSY
   \<and> fst (gamepad_property_show scripted_env CFG_GAMEPAD_MODE (world_init []))
     = (7, ''xinput'' @ [CHR 0x0A])"
  by (simp add: gamepad_property_show_def property_show_def gamepad_render_def
      bounded_label_def emit_label_def sysfs_emit_def to_size_t_def to_ssize_t_def
      GAMEPAD_MODE_TEXT_def mcu_property_out_def
      legos_cfg_send_cmd_def wait_for_completion_def scripted_env_def world_init_def
      drvdata_init_def Let_def)

text \<open>C6. With profile 1 selected, a response to the profile GET whose speed byte is
  200, outside the 0-100 domain, is rendered by \<open>rgb_speed_show\<close> as the text 200
  instead of being rejected.\<close>

theorem rgb_speed_show_renders_out_of_domain:
  "fst (rgb_speed_show scripted_env
          ((world_init [[report_of GET_LIGHT_CFG 3 [0, 1, 2, 3, 80, 200]]])
             \<lparr>drvdata := drvdata_init\<lparr>rgb_profile := 1\<rparr>\<rparr>))
     = (4, ''200'' @ [CHR 0x0A])"
  by (simp add: rgb_speed_show_def rgb_attr_show_def rgb_profile_call_def rgb_cfg_call_def
      emit_u8_def sysfs_emit_def dec.simps [of 200] dec.simps [of 20] dec.simps [of 2]
      mcu_property_out_def legos_cfg_raw_event_def report_of_def
      legos_cfg_send_cmd_def wait_for_completion_def scripted_env_def world_init_def
      drvdata_init_def Let_def)

lemma send_cmd_logs:
  "issued (snd (legos_cfg_send_cmd e buf w)) = issued w"
  "kmemdup_ok e \<Longrightarrow> sent (snd (legos_cfg_send_cmd e buf w)) = sent w @ [buf]"
  by (simp_all add: legos_cfg_send_cmd_def Let_def split_def)

lemma wait_logs:
  "issued (snd (wait_for_completion e w)) = issued w"
  "sent (snd (wait_for_completion e w)) = sent w"
  by (simp_all add: wait_for_completion_def Let_def split_def)

lemma mcu_property_out_issued:
  "endpoint_address e = cfg_intf_in e \<Longrightarrow>
   issued (snd (mcu_property_out e command idx val sz w)) = issued w @ [(command, idx, sz)]"
  by (simp add: mcu_property_out_def Let_def split_def send_cmd_logs wait_logs)

lemma mcu_property_out_frame:
  "endpoint_address e = cfg_intf_in e \<Longrightarrow> kmemdup_ok e \<Longrightarrow>
   sent (snd (mcu_property_out e command idx val sz w)) = sent w @ [outbuf_of command idx val sz]"
  by (simp add: mcu_property_out_def Let_def split_def send_cmd_logs wait_logs)

lemma to_ssize_t_small:
  assumes "uint c < 2 ^ 63"
  shows "to_ssize_t c = uint c"
proof -
  have "- (2 ^ 63 :: int) \<le> 0" by simp
  then have "- (2 ^ 63) \<le> uint c" using uint_ge_0 [of c] by (rule order_trans)
  from signed_take_bit_int_eq_self [OF this assms] show ?thesis
    by (simp add: to_ssize_t_def sint_uint)
qed

text \<open>C10. With the cached profile selector still 0, \<open>rgb_profile_call\<close> derives index 2,
  the profile-selector register, which \<open>rgb_cfg_call\<close> accepts: the command goes out
  with sub-index 2 instead of being rejected. The profile read and the profile write
  are such calls.\<close>

theorem rgb_profile_call_selector_zero:
  assumes sel: "rgb_profile (drvdata w) = 0"
    and cmd: "cmd = GET_LIGHT_CFG \<or> cmd = SET_LIGHT_CFG"
    and ep: "endpoint_address e = cfg_intf_in e"
  shows "rgb_profile_call e cmd val sz w = rgb_cfg_call e cmd LIGHT_PROFILE_SEL val sz w
         \<and> issued (snd (rgb_profile_call e cmd val sz w)) = issued w @ [(cmd, 2, sz)]
         \<and> (kmemdup_ok e \<longrightarrow>
              sent (snd (rgb_profile_call e cmd val sz w)) = sent w @ [outbuf_of cmd 2 val sz])
         \<and> issued (snd (rgb_attr_show e w)) = issued w @ [(GET_LIGHT_CFG, 2, 0)]
         \<and> issued (snd (rgb_write_profile e w)) = issued w @ [(SET_LIGHT_CFG, 2, 6)]"
proof -
  have call: "rgb_profile_call e c v n w = rgb_cfg_call e c LIGHT_PROFILE_SEL v n w"
    if "c = GET_LIGHT_CFG \<or> c = SET_LIGHT_CFG" for c v n
    using that sel by (auto simp add: rgb_profile_call_def Let_def numeral_2_eq_2)
  have iss: "issued (snd (rgb_cfg_call e c LIGHT_PROFILE_SEL v n w)) = issued w @ [(c, 2, n)]"
    if "c = GET_LIGHT_CFG \<or> c = SET_LIGHT_CFG" for c v n
    using that mcu_property_out_issued [OF ep, of c 2 v n w]
    by (auto simp add: rgb_cfg_call_def Let_def split_def)
  have snt: "sent (snd (rgb_cfg_call e c LIGHT_PROFILE_SEL v n w)) = sent w @ [outbuf_of c 2 v n]"
    if "c = GET_LIGHT_CFG \<or> c = SET_LIGHT_CFG" "kmemdup_ok e" for c v n
    using that mcu_property_out_frame [OF ep, of c 2 v n w]
    by (auto simp add: rgb_cfg_call_def Let_def split_def)
  have rd: "issued (snd (rgb_attr_show e w)) = issued w @ [(GET_LIGHT_CFG, 2, 0)]"
    using iss [of GET_LIGHT_CFG "[]" 0] call [of GET_LIGHT_CFG "[]" 0]
    by (simp add: rgb_attr_show_def Let_def split_def)
  have wr: "issued (snd (rgb_write_profile e w)) = issued w @ [(SET_LIGHT_CFG, 2, 6)]"
    using iss [of SET_LIGHT_CFG _ 6] call [of SET_LIGHT_CFG _ 6]
    by (simp add: rgb_write_profile_def Let_def)
  show ?thesis using call [OF cmd] iss [OF cmd] snt [OF cmd] rd wr by simp
qed

theorem rgb_profile_call_selector_zero_witness:
  "rgb_profile (drvdata (world_init [[report_of GET_LIGHT_CFG 2 [3]]] :: u8 list list list world)) = 0
   \<and> issued (snd (rgb_attr_show scripted_env (world_init [[report_of GET_LIGHT_CFG 2 [3]]])))
       = [(GET_LIGHT_CFG, 2, 0)]
   \<and> fst (rgb_attr_show scripted_env (world_init [[report_of GET_LIGHT_CFG 2 [3]]])) = 0"
proof -
  have sel: "rgb_profile (drvdata (world_init [[report_of GET_LIGHT_CFG 2 [3]]]
               :: u8 list list list world)) = 0"
    by (simp add: world_init_def drvdata_init_def)
  have ep: "endpoint_address scripted_env = cfg_intf_in scripted_env"
    by (simp add: scripted_env_def)
  have a: "issued (snd (rgb_attr_show scripted_env (world_init [[report_of GET_LIGHT_CFG 2 [3]]])))
       = [(GET_LIGHT_CFG, 2, 0)]"
    using rgb_profile_call_selector_zero [OF sel _ ep, of GET_LIGHT_CFG]
    by (simp add: world_init_def)
  have b: "fst (rgb_attr_show scripted_env (world_init [[report_of GET_LIGHT_CFG 2 [3]]])) = 0"
    by (simp add: rgb_attr_show_def rgb_profile_call_def rgb_cfg_call_def
      mcu_property_out_def legos_cfg_raw_event_def report_of_def
      legos_cfg_send_cmd_def wait_for_completion_def scripted_env_def world_init_def
      drvdata_init_def Let_def)
  show ?thesis using sel a b by simp
qed

text \<open>C9. The identity getters fetch only while the cache is all zero: then the GET
  command is issued with sub-index 0 and no payload, and a response to it fills the
  cache (for the id: the sub-index byte followed by the first 11 payload bytes). With
  a non-zero cache no command is issued, nothing changes, and the getter returns
  \<open>-ENOMEM\<close>.\<close>

theorem mcu_identity_getters:
  "(mcu_id (drvdata w) \<noteq> replicate 12 0 \<longrightarrow> mcu_id_get e w = (- ENOMEM, w))
   \<and> (mcu_ver (drvdata w) \<noteq> replicate 4 0 \<longrightarrow> mcu_version_get e w = (- ENOMEM, w))
   \<and> (mcu_id (drvdata w) = replicate 12 0 \<and> endpoint_address e = cfg_intf_in e \<longrightarrow>
        issued (snd (mcu_id_get e w)) = issued w @ [(GET_MCU_ID, NONE, 0)])
   \<and> (mcu_ver (drvdata w) = replicate 4 0 \<and> endpoint_address e = cfg_intf_in e \<longrightarrow>
        issued (snd (mcu_version_get e w)) = issued w @ [(GET_VERSION, NONE, 0)])
   \<and> (mcu_id (drvdata w) = replicate 12 0 \<and> endpoint_address e = cfg_intf_in e
        \<and> kmemdup_ok e \<and> \<not> signal_pending e
        \<and> hw_output_report e (device w) (outbuf_of GET_MCU_ID NONE [] 0)
             = (int GO_S_PACKET_SIZE, dev1)
        \<and> inbound e dev1 = ([report], dev2)
        \<and> length report = GO_S_PACKET_SIZE \<and> report ! 0 = GET_MCU_ID \<longrightarrow>
        fst (mcu_id_get e w) = 0
        \<and> mcu_id (drvdata (snd (mcu_id_get e w))) = report ! 1 # take 11 (drop 2 report))
   \<and> (mcu_ver (drvdata w) = replicate 4 0 \<and> endpoint_address e = cfg_intf_in e
        \<and> kmemdup_ok e \<and> \<not> signal_pending e
        \<and> hw_output_report e (device w) (outbuf_of GET_VERSION NONE [] 0)
             = (int GO_S_PACKET_SIZE, dev1)
        \<and> inbound e dev1 = ([report], dev2)
        \<and> length report = GO_S_PACKET_SIZE \<and> report ! 0 = GET_VERSION \<longrightarrow>
        fst (mcu_version_get e w) = 0
        \<and> mcu_ver (drvdata (snd (mcu_version_get e w)))
            = [report ! 4, report ! 3, report ! 2, report ! 1])"
proof (intro conjI impI)
  show "mcu_id_get e w = (- ENOMEM, w)" if "mcu_id (drvdata w) \<noteq> replicate 12 0"
    using that by (simp add: mcu_id_get_def)
  show "mcu_version_get e w = (- ENOMEM, w)" if "mcu_ver (drvdata w) \<noteq> replicate 4 0"
    using that by (simp add: mcu_version_get_def)
  show "issued (snd (mcu_id_get e w)) = issued w @ [(GET_MCU_ID, NONE, 0)]"
    if "mcu_id (drvdata w) = replicate 12 0 \<and> endpoint_address e = cfg_intf_in e"
    using that mcu_property_out_issued [of e GET_MCU_ID NONE "[]" 0 w]
    by (simp add: mcu_id_get_def Let_def split_def)
  show "issued (snd (mcu_version_get e w)) = issued w @ [(GET_VERSION, NONE, 0)]"
    if "mcu_ver (drvdata w) = replicate 4 0 \<and> endpoint_address e = cfg_intf_in e"
    using that mcu_property_out_issued [of e GET_VERSION NONE "[]" 0 w]
    by (simp add: mcu_version_get_def Let_def split_def)
next
  assume h: "mcu_id (drvdata w) = replicate 12 0 \<and> endpoint_address e = cfg_intf_in e
        \<and> kmemdup_ok e \<and> \<not> signal_pending e
        \<and> hw_output_report e (device w) (outbuf_of GET_MCU_ID NONE [] 0)
             = (int GO_S_PACKET_SIZE, dev1)
        \<and> inbound e dev1 = ([report], dev2)
        \<and> length report = GO_S_PACKET_SIZE \<and> report ! 0 = GET_MCU_ID"
  then have out: "mcu_property_out e GET_MCU_ID NONE [] 0 w =
     (let drv1 = deliver [report] ((drvdata w)\<lparr>last_cmd_ret := 0, last_cmd_val := 0\<rparr>)
      in (if 0 < send_cmd_complete drv1 then 0 else - EBUSY,
          w\<lparr>drvdata := drv1\<lparr>send_cmd_complete := 0\<rparr>,
            device := dev2,
            sent := sent w @ [outbuf_of GET_MCU_ID NONE [] 0],
            issued := issued w @ [(GET_MCU_ID, NONE, 0)]\<rparr>))"
    using mcu_property_out_sent [of e w GET_MCU_ID NONE "[]" 0 dev1 "[report]" dev2] by simp
  from h show "fst (mcu_id_get e w) = 0"
    by (simp add: mcu_id_get_def out legos_cfg_raw_event_def Let_def)
  from h show "mcu_id (drvdata (snd (mcu_id_get e w))) = report ! 1 # take 11 (drop 2 report)"
    by (simp add: mcu_id_get_def out legos_cfg_raw_event_def Let_def)
next
  assume h: "mcu_ver (drvdata w) = replicate 4 0 \<and> endpoint_address e = cfg_intf_in e
        \<and> kmemdup_ok e \<and> \<not> signal_pending e
        \<and> hw_output_report e (device w) (outbuf_of GET_VERSION NONE [] 0)
             = (int GO_S_PACKET_SIZE, dev1)
        \<and> inbound e dev1 = ([report], dev2)
        \<and> length report = GO_S_PACKET_SIZE \<and> report ! 0 = GET_VERSION"
  then have out: "mcu_property_out e GET_VERSION NONE [] 0 w =
     (let drv1 = deliver [report] ((drvdata w)\<lparr>last_cmd_ret := 0, last_cmd_val := 0\<rparr>)
      in (if 0 < send_cmd_complete drv1 then 0 else - EBUSY,
          w\<lparr>drvdata := drv1\<lparr>send_cmd_complete := 0\<rparr>,
            device := dev2,
            sent := sent w @ [outbuf_of GET_VERSION NONE [] 0],
            issued := issued w @ [(GET_VERSION, NONE, 0)]\<rparr>))"
    using mcu_property_out_sent [of e w GET_VERSION NONE "[]" 0 dev1 "[report]" dev2] by simp
  have four: "(4::nat) = Suc (Suc (Suc (Suc 0)))" by simp
  from h show "fst (mcu_version_get e w) = 0"
    by (simp add: mcu_version_get_def out legos_cfg_raw_event_def Let_def)
  from h show "mcu_ver (drvdata (snd (mcu_version_get e w)))
            = [report ! 4, report ! 3, report ! 2, report ! 1]"
    by (simp add: mcu_version_get_def out legos_cfg_raw_event_def Let_def
        numeral_2_eq_2 numeral_3_eq_3 four)
qed

theorem mcu_identity_getters_witness:
  "mcu_id_get scripted_env ((world_init [])\<lparr>drvdata := drvdata_init\<lparr>mcu_id := 1 # replicate 11 0\<rparr>\<rparr>)
     = (- ENOMEM, (world_init [])\<lparr>drvdata := drvdata_init\<lparr>mcu_id := 1 # replicate 11 0\<rparr>\<rparr>)
   \<and> issued (snd (mcu_id_get scripted_env (world_init []))) = [(GET_MCU_ID, NONE, 0)]
   \<and> mcu_id (drvdata (snd (mcu_id_get scripted_env
        (world_init [[report_of GET_MCU_ID 7 [1, 2, 3, 4, 5, 6, 7, 8, 9, 10, 11, 12]]]))))
       = [7, 1, 2, 3, 4, 5, 6, 7, 8, 9, 10, 11]
   \<and> mcu_ver (drvdata (snd (mcu_version_get scripted_env
        (world_init [[report_of GET_VERSION 4 [3, 2, 1]]]))))
       = [1, 2, 3, 4]"
proof -
  have a: "mcu_id_get scripted_env
             ((world_init [])\<lparr>drvdata := drvdata_init\<lparr>mcu_id := 1 # replicate 11 0\<rparr>\<rparr>)
     = (- ENOMEM, (world_init [])\<lparr>drvdata := drvdata_init\<lparr>mcu_id := 1 # replicate 11 0\<rparr>\<rparr>)"
    using mcu_identity_getters [of "(world_init [])\<lparr>drvdata := drvdata_init\<lparr>mcu_id := 1 # replicate 11 0\<rparr>\<rparr>" scripted_env, THEN conjunct1]
    by (simp add: eval_nat_numeral)
  have b: "issued (snd (mcu_id_get scripted_env (world_init []))) = [(GET_MCU_ID, NONE, 0)]"
    using mcu_identity_getters [of "world_init []" scripted_env,
        THEN conjunct2, THEN conjunct2, THEN conjunct1]
    by (simp add: scripted_env_def world_init_def drvdata_init_def)
  let ?r = "report_of GET_MCU_ID 7 [1, 2, 3, 4, 5, 6, 7, 8, 9, 10, 11, 12]"
  have c: "mcu_id (drvdata (snd (mcu_id_get scripted_env (world_init [[?r]]))))
       = [7, 1, 2, 3, 4, 5, 6, 7, 8, 9, 10, 11]"
    using mcu_identity_getters [where e = scripted_env and w = "world_init [[?r]]"
        and ?dev1.0 = "[[?r]]" and report = ?r and ?dev2.0 = "[]",
        THEN conjunct2, THEN conjunct2, THEN conjunct2, THEN conjunct2, THEN conjunct1]
    by (simp add: scripted_env_ok world_init_def drvdata_init_def report_of_def)
  let ?v = "report_of GET_VERSION 4 [3, 2, 1]"
  have d: "mcu_ver (drvdata (snd (mcu_version_get scripted_env (world_init [[?v]]))))
       = [1, 2, 3, 4]"
    using mcu_identity_getters [where e = scripted_env and w = "world_init [[?v]]"
        and ?dev1.0 = "[[?v]]" and report = ?v and ?dev2.0 = "[]",
        THEN conjunct2, THEN conjunct2, THEN conjunct2, THEN conjunct2, THEN conjunct2]
    by (simp add: scripted_env_ok world_init_def drvdata_init_def report_of_def)
  show ?thesis using a b c d by simp
qed

text \<open>With one non-zero byte cached, either getter fails with \<open>-ENOMEM\<close>.\<close>

theorem cached_identity_is_an_error:
  "fst (mcu_id_get scripted_env
          ((world_init [])\<lparr>drvdata := drvdata_init\<lparr>mcu_id := 1 # replicate 11 0\<rparr>\<rparr>)) = - ENOMEM
   \<and> fst (mcu_version_get scripted_env
          ((world_init [])\<lparr>drvdata := drvdata_init\<lparr>mcu_ver := [1, 0, 0, 0]\<rparr>\<rparr>)) = - ENOMEM"
  by (simp add: mcu_id_get_def mcu_version_get_def eval_nat_numeral)

subsection \<open>Stores, shows and the echoing transport\<close>

lemma outbuf_of_head:
  "outbuf_of command idx val sz ! 0 = command"
  "outbuf_of command idx val sz ! Suc 0 = idx"
  "outbuf_of command idx val sz ! 1 = idx"
  by (simp_all add: outbuf_of_def)

lemma outbuf_of_single:
  "outbuf_of command idx [v] 0 ! 2 = 0"
  "outbuf_of command idx [v] (Suc 0) ! 2 = v"
  "outbuf_of command idx [] 0 ! 2 = 0"
  by (simp_all add: outbuf_of_def numeral_2_eq_2)

lemma report_of_single:
  "length (report_of cmd sub_cmd [v]) = GO_S_PACKET_SIZE"
  "report_of cmd sub_cmd payload ! 0 = cmd"
  "report_of cmd sub_cmd payload ! Suc 0 = sub_cmd"
  "report_of cmd sub_cmd payload ! 1 = sub_cmd"
  "report_of cmd sub_cmd [v] ! 2 = v"
  "report_of cmd sub_cmd [v] ! Suc (Suc 0) = v"
  by (simp_all add: report_of_def numeral_2_eq_2)



lemma payload_of_outbuf:
  assumes "sz \<le> length val" "sz \<le> 63"
  shows "payload_of (outbuf_of command idx val sz) = (\<lambda>k. if k < sz then val ! k else 0)"
proof
  fix k
  show "payload_of (outbuf_of command idx val sz) k = (if k < sz then val ! k else 0)"
    using assms by (auto simp add: payload_of_def outbuf_of_def nth_append)
qed

lemma echo_set_payload:
  assumes e: "echo_transport e"
    and c: "cmd = SET_GAMEPAD_CFG \<or> cmd = SET_TP_PARAM \<or> cmd = SET_LIGHT_CFG"
    and sz: "sz \<le> length val" "sz \<le> 63"
  shows "mcu_property_out e cmd idx val sz w =
     (0, w\<lparr>drvdata := (drvdata w)\<lparr>last_cmd_ret := 0, last_cmd_val := 0, send_cmd_complete := 0\<rparr>,
           device := (device w)\<lparr>stored := (stored (device w))
                        (cmd - 1 := (stored (device w) (cmd - 1))
                           (idx := (\<lambda>k. if k < sz then val ! k else 0))), outbox := []\<rparr>,
           sent := sent w @ [outbuf_of cmd idx val sz],
           issued := issued w @ [(cmd, idx, sz)]\<rparr>)"
proof -
  let ?dev1 = "(device w)\<lparr>stored := (stored (device w))
                        (cmd - 1 := (stored (device w) (cmd - 1))
                           (idx := (\<lambda>k. if k < sz then val ! k else 0))),
                   outbox := [report_of cmd idx [0]]\<rparr>"
  have ep: "endpoint_address e = cfg_intf_in e" and mem: "kmemdup_ok e"
    and nosig: "\<not> signal_pending e" using e by (simp_all add: echo_transport_def)
  have send: "hw_output_report e (device w) (outbuf_of cmd idx val sz)
                = (int GO_S_PACKET_SIZE, ?dev1)"
    using e c by (auto simp add: echo_transport_def echo_output_report_def Let_def
        outbuf_of_head payload_of_outbuf [OF sz])
  have inb: "inbound e ?dev1 = ([report_of cmd idx [0]], ?dev1\<lparr>outbox := []\<rparr>)"
    using e by (simp add: echo_transport_def echo_inbound_def)
  note out = mcu_property_out_sent [OF ep mem nosig send inb]
  from c show ?thesis
  proof (elim disjE)
    assume "cmd = SET_GAMEPAD_CFG"
    then show ?thesis using out
      by (simp add: Let_def legos_cfg_raw_event_def report_of_single)
  next
    assume "cmd = SET_TP_PARAM"
    then show ?thesis using out
      by (simp add: Let_def legos_cfg_raw_event_def report_of_single)
  next
    assume "cmd = SET_LIGHT_CFG"
    then show ?thesis using out
      by (simp add: Let_def legos_cfg_raw_event_def report_of_single)
  qed
qed




lemma size_t_zero_not_negative: "\<not> to_size_t 0 < 0"
  by (simp add: to_size_t_def)














lemma outbuf_of_wire_value:
  "outbuf_of command idx [val] (if val = 0 then 0 else 1)
     = [command, idx] @ (if val = 0 then [] else [val]) @ replicate (if val = 0 then 63 else 62) 0"
  by (simp add: outbuf_of_def)

text \<open>C7. A store whose text parses to the wire value \<open>val\<close> issues exactly one SET
  command for its index, with payload size 0 when \<open>val\<close> is 0 and size 1 otherwise: the
  frame handed to the transport is the command, the index, the payload byte if there
  is one, and zeros. When the command completes without transport error and the
  device reports status 0, the store returns the caller's \<open>count\<close> (as \<open>ssize_t\<close>, which
  is \<open>count\<close> itself below \<open>2^63\<close>), not a value taken from the response.\<close>

theorem store_payload_size_and_count:
  assumes ep: "endpoint_address e = cfg_intf_in e"
  shows "(gamepad_parse e buf idx = Inr val \<longrightarrow>
            issued (snd (gamepad_property_store e buf count idx w))
              = issued w @ [(SET_GAMEPAD_CFG, idx, if val = 0 then 0 else 1)]
            \<and> (kmemdup_ok e \<longrightarrow>
                 sent (snd (gamepad_property_store e buf count idx w))
                   = sent w @ [[SET_GAMEPAD_CFG, idx] @ (if val = 0 then [] else [val])
                               @ replicate (if val = 0 then 63 else 62) 0])
            \<and> (0 \<le> fst (mcu_property_out e SET_GAMEPAD_CFG idx [val] (if val = 0 then 0 else 1) w)
                \<and> last_cmd_ret (drvdata (snd (mcu_property_out e SET_GAMEPAD_CFG idx [val]
                      (if val = 0 then 0 else 1) w))) = 0
                \<longrightarrow> gamepad_property_store e buf count idx w
                      = (to_ssize_t count,
                         snd (mcu_property_out e SET_GAMEPAD_CFG idx [val]
                                (if val = 0 then 0 else 1) w))))
         \<and> (touchpad_parse buf idx = Inr val \<longrightarrow>
            issued (snd (touchpad_property_store e buf count idx w))
              = issued w @ [(SET_TP_PARAM, idx, if val = 0 then 0 else 1)]
            \<and> (kmemdup_ok e \<longrightarrow>
                 sent (snd (touchpad_property_store e buf count idx w))
                   = sent w @ [[SET_TP_PARAM, idx] @ (if val = 0 then [] else [val])
                               @ replicate (if val = 0 then 63 else 62) 0])
            \<and> (0 \<le> fst (mcu_property_out e SET_TP_PARAM idx [val] (if val = 0 then 0 else 1) w)
                \<and> last_cmd_ret (drvdata (snd (mcu_property_out e SET_TP_PARAM idx [val]
                      (if val = 0 then 0 else 1) w))) = 0
                \<longrightarrow> touchpad_property_store e buf count idx w
                      = (to_ssize_t count,
                         snd (mcu_property_out e SET_TP_PARAM idx [val]
                                (if val = 0 then 0 else 1) w))))
         \<and> (uint count < 2 ^ 63 \<longrightarrow> to_ssize_t count = uint count)"
proof -
  have iss: "issued (snd (property_set e cmd idx val count w))
               = issued w @ [(cmd, idx, if val = 0 then 0 else 1)]" for cmd
    using mcu_property_out_issued [OF ep, of cmd idx "[val]" "if val = 0 then 0 else 1" w]
    by (simp add: property_set_def Let_def split_def)
  have snt: "sent (snd (property_set e cmd idx val count w))
               = sent w @ [[cmd, idx] @ (if val = 0 then [] else [val])
                           @ replicate (if val = 0 then 63 else 62) 0]"
    if "kmemdup_ok e" for cmd
    using mcu_property_out_frame [OF ep that, of cmd idx "[val]" "if val = 0 then 0 else 1" w]
      outbuf_of_wire_value [of cmd idx val]
    by (simp add: property_set_def Let_def split_def)
  have ok: "property_set e cmd idx val count w
              = (to_ssize_t count,
                 snd (mcu_property_out e cmd idx [val] (if val = 0 then 0 else 1) w))"
    if "0 \<le> fst (mcu_property_out e cmd idx [val] (if val = 0 then 0 else 1) w)"
       "last_cmd_ret (drvdata (snd (mcu_property_out e cmd idx [val]
                      (if val = 0 then 0 else 1) w))) = 0" for cmd
    using that by (simp add: property_set_def Let_def split_def)
  show ?thesis
    using iss [of SET_GAMEPAD_CFG] iss [of SET_TP_PARAM]
      snt [of SET_GAMEPAD_CFG] snt [of SET_TP_PARAM]
      ok [of SET_GAMEPAD_CFG] ok [of SET_TP_PARAM] to_ssize_t_small [of count]
    by (simp add: gamepad_property_store_def touchpad_property_store_def)
qed

theorem store_payload_size_and_count_witness:
  "gamepad_parse echo_env ''xinput'' CFG_GAMEPAD_MODE = Inr 0
   \<and> issued (snd (gamepad_property_store echo_env ''xinput'' 6 CFG_GAMEPAD_MODE
         (world_init echo_dev_init))) = [(SET_GAMEPAD_CFG, CFG_GAMEPAD_MODE, 0)]
   \<and> gamepad_parse echo_env ''dinput'' CFG_GAMEPAD_MODE = Inr 1
   \<and> issued (snd (gamepad_property_store echo_env ''dinput'' 6 CFG_GAMEPAD_MODE
         (world_init echo_dev_init))) = [(SET_GAMEPAD_CFG, CFG_GAMEPAD_MODE, 1)]
   \<and> fst (gamepad_property_store echo_env ''dinput'' 6 CFG_GAMEPAD_MODE
         (world_init echo_dev_init)) = 6
   \<and> touchpad_parse ''absolute'' CFG_WINDOWS_MODE = Inr 1
   \<and> sent (snd (touchpad_property_store echo_env ''absolute'' 8 CFG_WINDOWS_MODE
         (world_init echo_dev_init))) = [[SET_TP_PARAM, CFG_WINDOWS_MODE, 1] @ replicate 62 0]"
proof -
  have ep: "endpoint_address echo_env = cfg_intf_in echo_env" by (simp add: echo_env_def)
  have mem: "kmemdup_ok echo_env" by (simp add: echo_env_def)
  have et: "echo_transport echo_env" by (simp add: echo_transport_def echo_env_def)
  have p0: "gamepad_parse echo_env ''xinput'' CFG_GAMEPAD_MODE = Inr 0"
    by (simp add: gamepad_parse_def match_val_def sysfs_match_string_def sysfs_streq_def
        GAMEPAD_MODE_TEXT_def)
  have p1: "gamepad_parse echo_env ''dinput'' CFG_GAMEPAD_MODE = Inr 1"
    by (simp add: gamepad_parse_def match_val_def sysfs_match_string_def sysfs_streq_def
        GAMEPAD_MODE_TEXT_def)
  have p2: "touchpad_parse ''absolute'' CFG_WINDOWS_MODE = Inr 1"
    by (simp add: touchpad_parse_def match_val_def sysfs_match_string_def sysfs_streq_def
        TOUCHPAD_MODE_TEXT_def)
  note th0 = store_payload_size_and_count [OF ep, of "''xinput''" CFG_GAMEPAD_MODE 0 6
      "world_init echo_dev_init", THEN conjunct1, rule_format, OF p0]
  note th1 = store_payload_size_and_count [OF ep, of "''dinput''" CFG_GAMEPAD_MODE 1 6
      "world_init echo_dev_init", THEN conjunct1, rule_format, OF p1]
  note th2 = store_payload_size_and_count [OF ep, of "''absolute''" CFG_WINDOWS_MODE 1 8
      "world_init echo_dev_init", THEN conjunct2, THEN conjunct1, rule_format, OF p2]
  have a: "issued (snd (gamepad_property_store echo_env ''xinput'' 6 CFG_GAMEPAD_MODE
         (world_init echo_dev_init))) = [(SET_GAMEPAD_CFG, CFG_GAMEPAD_MODE, 0)]"
    using th0 [THEN conjunct1] by (simp add: world_init_def)
  have b: "issued (snd (gamepad_property_store echo_env ''dinput'' 6 CFG_GAMEPAD_MODE
         (world_init echo_dev_init))) = [(SET_GAMEPAD_CFG, CFG_GAMEPAD_MODE, 1)]"
    using th1 [THEN conjunct1] by (simp add: world_init_def)
  have c: "fst (gamepad_property_store echo_env ''dinput'' 6 CFG_GAMEPAD_MODE
         (world_init echo_dev_init)) = 6"
    using th1 [THEN conjunct2, THEN conjunct2]
      echo_set_payload [OF et, of SET_GAMEPAD_CFG 1 "[1]" CFG_GAMEPAD_MODE
        "world_init echo_dev_init"]
    by (simp add: to_ssize_t_def)
  have d: "sent (snd (touchpad_property_store echo_env ''absolute'' 8 CFG_WINDOWS_MODE
         (world_init echo_dev_init))) = [[SET_TP_PARAM, CFG_WINDOWS_MODE, 1] @ replicate 62 0]"
    using th2 [THEN conjunct2, THEN conjunct1] mem by (simp add: world_init_def)
  show ?thesis using p0 a p1 b c p2 d by simp
qed















lemma match_string_from_result:
  "0 \<le> k \<Longrightarrow> match_string_from table s k = - EINVAL \<or> k \<le> match_string_from table s k"
proof (induction table arbitrary: k)
  case Nil
  then show ?case by simp
next
  case (Cons item rest)
  from Cons.IH [of "k + 1"] Cons.prems show ?case by auto
qed

lemma match_val_error: "match_val table buf = Inl err \<Longrightarrow> err = - EINVAL"
  using match_string_from_result [of 0 table buf]
  by (auto simp add: match_val_def sysfs_match_string_def Let_def split: if_splits)

text \<open>Values outside a property's domain, where the driver does check them: a text
  that matches no label, a mouse wheel step outside 1-127 and an RGB speed outside
  0-100 are refused with \<open>-EINVAL\<close> before anything is sent or changed, and a gamepad
  mode byte above 1 in the response makes the show fail with \<open>-EINVAL\<close> and no text.\<close>

theorem out_of_domain_values_rejected:
  "(gamepad_parse e buf CFG_GAMEPAD_MODE = Inl err \<longrightarrow>
      gamepad_property_store e buf count CFG_GAMEPAD_MODE w = (- EINVAL, w))
   \<and> (kstrtou8 e buf = (0, v) \<and> (v < 1 \<or> 127 < v) \<longrightarrow>
        gamepad_property_store e buf count CFG_MS_WHEEL_STEP w = (- EINVAL, w))
   \<and> (kstrtoint e buf = (0, n) \<and> (100 <s n \<or> n <s 0) \<longrightarrow>
        rgb_speed_store e buf count w = (- EINVAL, w))
   \<and> (endpoint_address e = cfg_intf_in e \<and> kmemdup_ok e \<and> \<not> signal_pending e
        \<and> hw_output_report e (device w) (outbuf_of GET_GAMEPAD_CFG CFG_GAMEPAD_MODE [] 0)
             = (int GO_S_PACKET_SIZE, dev1)
        \<and> inbound e dev1 = ([report_of GET_GAMEPAD_CFG CFG_GAMEPAD_MODE [i]], dev2)
        \<and> DINPUT < i \<longrightarrow>
        fst (gamepad_property_show e CFG_GAMEPAD_MODE w) = (- EINVAL, []))"
proof (intro conjI impI)
  assume "gamepad_parse e buf CFG_GAMEPAD_MODE = Inl err"
  then show "gamepad_property_store e buf count CFG_GAMEPAD_MODE w = (- EINVAL, w)"
    using match_val_error [of GAMEPAD_MODE_TEXT buf err]
    by (simp add: gamepad_property_store_def gamepad_parse_def)
next
  assume "kstrtou8 e buf = (0, v) \<and> (v < 1 \<or> 127 < v)"
  then show "gamepad_property_store e buf count CFG_MS_WHEEL_STEP w = (- EINVAL, w)"
    by (auto simp add: gamepad_property_store_def gamepad_parse_def)
next
  assume "kstrtoint e buf = (0, n) \<and> (100 <s n \<or> n <s 0)"
  then show "rgb_speed_store e buf count w = (- EINVAL, w)"
    by (auto simp add: rgb_speed_store_def)
next
  assume h: "endpoint_address e = cfg_intf_in e \<and> kmemdup_ok e \<and> \<not> signal_pending e
        \<and> hw_output_report e (device w) (outbuf_of GET_GAMEPAD_CFG CFG_GAMEPAD_MODE [] 0)
             = (int GO_S_PACKET_SIZE, dev1)
        \<and> inbound e dev1 = ([report_of GET_GAMEPAD_CFG CFG_GAMEPAD_MODE [i]], dev2)
        \<and> DINPUT < i"
  then have out: "mcu_property_out e GET_GAMEPAD_CFG CFG_GAMEPAD_MODE [] 0 w =
     (let drv1 = deliver [report_of GET_GAMEPAD_CFG CFG_GAMEPAD_MODE [i]]
                   ((drvdata w)\<lparr>last_cmd_ret := 0, last_cmd_val := 0\<rparr>)
      in (if 0 < send_cmd_complete drv1 then 0 else - EBUSY,
          w\<lparr>drvdata := drv1\<lparr>send_cmd_complete := 0\<rparr>,
            device := dev2,
            sent := sent w @ [outbuf_of GET_GAMEPAD_CFG CFG_GAMEPAD_MODE [] 0],
            issued := issued w @ [(GET_GAMEPAD_CFG, CFG_GAMEPAD_MODE, 0)]\<rparr>))"
    using mcu_property_out_sent [of e w GET_GAMEPAD_CFG CFG_GAMEPAD_MODE "[]" 0 dev1
        "[report_of GET_GAMEPAD_CFG CFG_GAMEPAD_MODE [i]]" dev2] by simp
  from h show "fst (gamepad_property_show e CFG_GAMEPAD_MODE w) = (- EINVAL, [])"
    by (simp add: gamepad_property_show_def property_show_def out Let_def
        legos_cfg_raw_event_def report_of_single size_t_zero_not_negative
        gamepad_render_def bounded_label_def to_size_t_def to_ssize_t_def)
qed

theorem out_of_domain_values_rejected_witness:
  "gamepad_property_store echo_env ''200'' 3 CFG_MS_WHEEL_STEP (world_init echo_dev_init)
     = (- EINVAL, world_init echo_dev_init)
   \<and> gamepad_property_store echo_env ''keyboard'' 8 CFG_GAMEPAD_MODE (world_init echo_dev_init)
     = (- EINVAL, world_init echo_dev_init)
   \<and> rgb_speed_store echo_env ''101'' 3 (world_init echo_dev_init)
     = (- EINVAL, world_init echo_dev_init)"
proof -
  have k: "kstrtou8 echo_env ''200'' = (0, 200)"
    by (simp add: echo_env_def parse_u8_def parse_ull_def skip_plus_def chomp_def)
  have n: "kstrtoint echo_env ''101'' = (0, 101)"
    by (simp add: echo_env_def parse_int_def parse_ull_def skip_plus_def chomp_def)
  have p: "gamepad_parse echo_env ''keyboard'' CFG_GAMEPAD_MODE = Inl (- EINVAL)"
    by (simp add: gamepad_parse_def match_val_def sysfs_match_string_def sysfs_streq_def
        GAMEPAD_MODE_TEXT_def)
  note th = out_of_domain_values_rejected [where e = echo_env and w = "world_init echo_dev_init"]
  have a: "gamepad_property_store echo_env ''200'' 3 CFG_MS_WHEEL_STEP (world_init echo_dev_init)
     = (- EINVAL, world_init echo_dev_init)"
    using th [of "''200''" _ 3 200, THEN conjunct2, THEN conjunct1] k by simp
  have b: "gamepad_property_store echo_env ''keyboard'' 8 CFG_GAMEPAD_MODE (world_init echo_dev_init)
     = (- EINVAL, world_init echo_dev_init)"
    using th [of "''keyboard''" "- EINVAL" 8, THEN conjunct1] p by simp
  have c: "rgb_speed_store echo_env ''101'' 3 (world_init echo_dev_init)
     = (- EINVAL, world_init echo_dev_init)"
    using th [of "''101''" _ 3 _ 101, THEN conjunct2, THEN conjunct2, THEN conjunct1] n by simp
  show ?thesis using a b c by simp
qed

end
